theory Spec2Isabelle
  imports Main "HOL-Library.AList"
begin

section \<open>JavaScript values used by the authentication core\<close>

text \<open>
  A string is given by its bytes in UTF-8. Numbers that the code reads as timestamps (seconds or
  milliseconds since the epoch, \<open>expires_in\<close>, \<open>max-age\<close>) are modelled as
  unbounded integers; the IEEE rounding of very large values is not modelled.
  A thrown value is either a \<open>FirebaseAuthError\<close>, of which only the machine-readable
  \<open>code\<close> is kept, or any other exception (\<open>TypeError\<close>, \<open>SyntaxError\<close>, a plain
  \<open>Error\<close>), of which nothing is kept.
\<close>

datatype js_error = FirebaseAuthError string | OtherError

text \<open>Truthiness of an optional string: \<open>undefined\<close> and the empty string are falsy.\<close>

definition truthy :: "string option \<Rightarrow> bool" where
  "truthy v = (case v of None \<Rightarrow> False | Some s \<Rightarrow> s \<noteq> [])"

definition is_digit :: "char \<Rightarrow> bool" where
  "is_digit c = (c \<in> set ''0123456789'')"

definition digit_value :: "char \<Rightarrow> nat" where
  "digit_value c = of_char c - 48"

definition digits_value :: "string \<Rightarrow> nat" where
  "digits_value ds = foldl (\<lambda>a c. 10 * a + digit_value c) 0 ds"

text \<open>
  The white space that \<open>parseInt\<close> skips is \<open>StrWhiteSpaceChar\<close> of ECMA-262: the
  characters of \<open>WhiteSpace\<close> (tab, vertical tab, form feed, space, no-break space,
  U+FEFF and the space separators of Unicode) and of \<open>LineTerminator\<close> (line feed,
  carriage return, U+2028, U+2029). Each is given by its bytes in UTF-8.
\<close>

definition StrWhiteSpaceChar :: "string list" where
  "StrWhiteSpaceChar =
     [[CHR 0x09], [CHR 0x0A], [CHR 0x0B], [CHR 0x0C], [CHR 0x0D], [CHR 0x20],
      [CHR 0xC2, CHR 0xA0],
      [CHR 0xE1, CHR 0x9A, CHR 0x80],
      [CHR 0xE2, CHR 0x80, CHR 0x80], [CHR 0xE2, CHR 0x80, CHR 0x81],
      [CHR 0xE2, CHR 0x80, CHR 0x82], [CHR 0xE2, CHR 0x80, CHR 0x83],
      [CHR 0xE2, CHR 0x80, CHR 0x84], [CHR 0xE2, CHR 0x80, CHR 0x85],
      [CHR 0xE2, CHR 0x80, CHR 0x86], [CHR 0xE2, CHR 0x80, CHR 0x87],
      [CHR 0xE2, CHR 0x80, CHR 0x88], [CHR 0xE2, CHR 0x80, CHR 0x89],
      [CHR 0xE2, CHR 0x80, CHR 0x8A],
      [CHR 0xE2, CHR 0x80, CHR 0xA8], [CHR 0xE2, CHR 0x80, CHR 0xA9],
      [CHR 0xE2, CHR 0x80, CHR 0xAF],
      [CHR 0xE2, CHR 0x81, CHR 0x9F],
      [CHR 0xE3, CHR 0x80, CHR 0x80],
      [CHR 0xEF, CHR 0xBB, CHR 0xBF]]"

text \<open>The number of bytes of the white-space character at the head of a string, if any.\<close>

fun leading_space :: "string list \<Rightarrow> string \<Rightarrow> nat" where
  "leading_space [] s = 0"
| "leading_space (sp # sps) s =
     (if take (length sp) s = sp then length sp else leading_space sps s)"

fun skip_white_space :: "string \<Rightarrow> string" where
  "skip_white_space [] = []"
| "skip_white_space (c # cs) =
     (let n = leading_space StrWhiteSpaceChar (c # cs) in
      if n = 0 then c # cs else skip_white_space (drop n (c # cs)))"

definition parseDigits :: "string \<Rightarrow> nat option" where
  "parseDigits s =
     (let ds = takeWhile is_digit s in if ds = [] then None else Some (digits_value ds))"

text \<open>
  \<open>parseInt(s, 10)\<close>: leading white space is skipped, one sign is accepted, then the
  longest run of decimal digits is read and the rest of the string is ignored. The result
  \<open>None\<close> is \<open>NaN\<close>.
\<close>

definition parseInt :: "string \<Rightarrow> int option" where
  "parseInt s =
     (let t = skip_white_space s in
      if t \<noteq> [] \<and> hd t = CHR ''-'' then map_option (\<lambda>n. - int n) (parseDigits (tl t))
      else if t \<noteq> [] \<and> hd t = CHR ''+'' then map_option int (parseDigits (tl t))
      else map_option int (parseDigits t))"

text \<open>
  \<open>cacheControl.match(/max-age=(\d+)/)\<close>: the leftmost position where \<open>max-age=\<close> is
  followed by at least one digit; the captured group is the longest run of digits there.
\<close>

fun maxAgeMatch :: "string \<Rightarrow> string option" where
  "maxAgeMatch [] = None"
| "maxAgeMatch (c # cs) =
     (if take 8 (c # cs) = ''max-age='' \<and> takeWhile is_digit (drop 8 (c # cs)) \<noteq> []
      then Some (takeWhile is_digit (drop 8 (c # cs)))
      else maxAgeMatch cs)"

section \<open>firebase-admin.ts: configuration, caches and the platform\<close>

record serviceAccount =
  private_key :: string
  client_email :: string

record firebaseAdminConfig =
  projectId :: string
  serviceAccount :: serviceAccount

definition GOOGLE_JWK_URL :: string where
  "GOOGLE_JWK_URL =
     ''https://www.googleapis.com/service_accounts/v1/jwk/securetoken@system.gserviceaccount.com''"

definition FIREBASE_ISSUER :: "string \<Rightarrow> string" where
  "FIREBASE_ISSUER pid = ''https://securetoken.google.com/'' @ pid"

definition GOOGLE_OAUTH2_TOKEN_URL :: string where
  "GOOGLE_OAUTH2_TOKEN_URL = ''https://oauth2.googleapis.com/token''"

definition IDENTITY_TOOLKIT_URL :: string where
  "IDENTITY_TOOLKIT_URL = ''https://identitytoolkit.googleapis.com/v1''"

record jwtHeader =
  alg :: "string option"
  kid :: "string option"

text \<open>
  The claims of the decoded payload that the code reads. A field is \<open>None\<close> when the
  claim is missing or does not have the JavaScript type the code tests for
  (\<open>string\<close> for \<open>aud\<close>, \<open>iss\<close>, \<open>sub\<close>, \<open>uid\<close>; \<open>number\<close> for the timestamps).
\<close>

record decodedIdToken =
  aud :: "string option"
  iss :: "string option"
  sub :: "string option"
  auth_time :: "int option"
  iat :: "int option"
  exp :: "int option"
  email_verified :: "bool option"
  uid :: "string option"

record firebaseUserRecord =
  localId :: string
  tokensValidAfterTime :: "string option"

record jsonWebKey =
  jwk_kty :: "string option"
  jwk_alg :: "string option"
  jwk_kid :: "string option"
  jwk_n :: "string option"
  jwk_e :: "string option"

text \<open>A \<open>CryptoKey\<close> is an opaque handle of the platform.\<close>

datatype cryptoKey = CryptoKey nat

type_synonym keyMap = "(string \<times> cryptoKey) list"

record jwkCacheEntry =
  jwk_keys :: keyMap
  jwk_expiry :: int

record accessToken =
  token :: string
  expiry :: int

text \<open>
  The values that may be sent as JSON: the custom claims and the request bodies of the
  Admin API.
\<close>

datatype json =
    JNull
  | JBool bool
  | JNumber int
  | JString string
  | JArray "json list"
  | JObject "(string \<times> json) list"

text \<open>
  Every effect that leaves the process is recorded in a trace: a call of the private
  method that looks public keys up, a \<open>fetch\<close> of a URL, and the signing of a
  service-account assertion.
\<close>

datatype event =
    GetPublicKeys
  | Fetch string
  | SignJwt

text \<open>The module-level state of \<open>firebase-admin.ts\<close>, the clock and the trace.\<close>

record world =
  clock :: int
  jwkCache :: "jwkCacheEntry option"
  accessTokenCache :: "accessToken option"
  trace :: "event list"

text \<open>What a remote end point answers. \<open>NetworkFailure\<close> is a rejected \<open>fetch\<close>.\<close>

datatype jwks_reply =
    JwksNetworkFailure
  | JwksReply bool "string option" "jsonWebKey list option"

datatype token_reply =
    TokenNetworkFailure
  | TokenReply bool "(string \<times> int) option"

datatype admin_reply =
    AdminNetworkFailure
  | AdminNotOk string
  | AdminOk bool "firebaseUserRecord list option option"

datatype decoded =
    DecodeThrows
  | Decoded "jwtHeader option" "decodedIdToken option"

record assertionClaims =
  a_iss :: string
  a_sub :: string
  a_aud :: string
  a_iat :: int
  a_exp :: int

text \<open>
  The platform: everything the code calls that is not part of the repository.
  \<^item> \<open>delay\<close>: the milliseconds that pass while an effect is awaited;
  \<^item> \<open>jwt_decode\<close>: \<open>decode\<close> of the JWT library, which may throw, or give an undefined
    header or payload;
  \<^item> \<open>jwks_reply\<close>: the answer of the key end point: \<open>response.ok\<close>, the
    \<open>cache-control\<close> header, and the \<open>keys\<close> array of the body (\<open>None\<close> when the
    body is not such JSON);
  \<^item> \<open>importKey\<close>, \<open>base64_decode\<close>, \<open>subtle_verify\<close>: Web Crypto and
    \<open>Base64Url.decode\<close>, \<open>None\<close> when they throw;
  \<^item> \<open>sign_assertion\<close>: encoding and signing the assertion with the private key;
  \<^item> \<open>token_reply\<close>: the answer of the OAuth2 token end point: \<open>response.ok\<close> and
    the \<open>access_token\<close> and \<open>expires_in\<close> of the body;
  \<^item> \<open>admin_reply\<close>: the answer of the Admin API to a request for an end point with a
    body: either a response that is not \<open>ok\<close>, with its error details as a JSON string, or
    a response that is, with whether its content type is JSON and the \<open>users\<close> field of
    the parsed body (the outer \<open>None\<close> when parsing throws);
  \<^item> \<open>Number_toString\<close>: \<open>Number.prototype.toString\<close>, the text of a number;
  \<^item> \<open>JSON_stringify\<close>: \<open>JSON.stringify\<close>, the JSON text of a value, whose length is
    the number of bytes that \<open>TextEncoder\<close> counts.
\<close>

record platform =
  delay :: "event \<Rightarrow> nat"
  jwt_decode :: "string \<Rightarrow> decoded"
  jwks_reply :: jwks_reply
  importKey :: "jsonWebKey \<Rightarrow> cryptoKey option"
  base64_decode :: "string \<Rightarrow> string option"
  subtle_verify :: "cryptoKey \<Rightarrow> string \<Rightarrow> string \<Rightarrow> bool option"
  sign_assertion :: "assertionClaims \<Rightarrow> string \<Rightarrow> string option"
  token_reply :: token_reply
  admin_reply :: "string \<Rightarrow> json \<Rightarrow> admin_reply"
  Number_toString :: "int \<Rightarrow> string"
  JSON_stringify :: "json \<Rightarrow> string"

text \<open>\<open>Math.floor(Date.now() / 1000)\<close>.\<close>

definition now_seconds :: "world \<Rightarrow> int" where
  "now_seconds w = clock w div 1000"

text \<open>Awaiting an effect: it is appended to the trace and time passes.\<close>

definition effect :: "platform \<Rightarrow> event \<Rightarrow> world \<Rightarrow> world" where
  "effect pf e w = w\<lparr>clock := clock w + int (delay pf e), trace := trace w @ [e]\<rparr>"

section \<open>Key cache: \<open>#fetchGooglePublicKeys\<close>\<close>

definition malformed_jwk :: "jsonWebKey \<Rightarrow> bool" where
  "malformed_jwk k =
     (jwk_kty k \<noteq> Some ''RSA'' \<or> \<not> truthy (jwk_alg k) \<or> \<not> truthy (jwk_kid k)
      \<or> \<not> truthy (jwk_n k) \<or> \<not> truthy (jwk_e k))"

text \<open>
  The imports of the \<open>Promise.all\<close>, once no key is malformed: every key is imported and
  stored under its \<open>kid\<close> (\<open>Map.set\<close> replaces the value of a key that is already
  there). \<open>None\<close> when an import throws.
\<close>

fun importAll :: "platform \<Rightarrow> jsonWebKey list \<Rightarrow> keyMap \<Rightarrow> keyMap option" where
  "importAll pf [] m = Some m"
| "importAll pf (k # ks) m =
     (case (jwk_kid k, importKey pf k) of
        (Some keyId, Some key) \<Rightarrow> importAll pf ks (AList.update keyId key m)
      | _ \<Rightarrow> None)"

text \<open>
  \<open>maxAgeMatch ? parseInt(maxAgeMatch[1], 10) : 3600\<close>; on a run of digits
  \<open>parseInt\<close> is \<open>digits_value\<close> (lemma \<open>parseInt_digits\<close>).
\<close>

definition maxAgeOf :: "string option \<Rightarrow> int" where
  "maxAgeOf cacheControl =
     (case cacheControl of
        None \<Rightarrow> 3600
      | Some cc \<Rightarrow> (case maxAgeMatch cc of None \<Rightarrow> 3600 | Some ds \<Rightarrow> int (digits_value ds)))"

text \<open>The cached keys, when there is an entry and \<open>now < jwkCache.expiry\<close>.\<close>

definition cachedKeys :: "world \<Rightarrow> keyMap option" where
  "cachedKeys w =
     (case jwkCache w of
        None \<Rightarrow> None
      | Some c \<Rightarrow> if now_seconds w < jwk_expiry c then Some (jwk_keys c) else None)"

text \<open>
  \<open>#fetchGooglePublicKeys\<close> (firebase-admin.ts, lines 212 to 260).
  A malformed key rejects its promise before any import is awaited, so its
  \<open>invalid-jwk\<close> is the error of the \<open>Promise.all\<close> when there is one; any other
  exception is wrapped into \<open>jwk-processing-error\<close> by the \<open>catch\<close>.
\<close>

definition fetchGooglePublicKeys :: "platform \<Rightarrow> world \<Rightarrow> (js_error + keyMap) \<times> world" where
  "fetchGooglePublicKeys pf w0 =
     (let w = w0\<lparr>trace := trace w0 @ [GetPublicKeys]\<rparr>; now = now_seconds w in
      case cachedKeys w of
        Some ks \<Rightarrow> (Inr ks, w)
      | None \<Rightarrow>
        let w1 = effect pf (Fetch GOOGLE_JWK_URL) w in
        (case jwks_reply pf of
          JwksNetworkFailure \<Rightarrow> (Inl (FirebaseAuthError ''jwk-processing-error''), w1)
        | JwksReply ok cacheControl body \<Rightarrow>
            if \<not> ok then (Inl (FirebaseAuthError ''jwk-fetch-failed''), w1)
            else
              let maxAge = maxAgeOf cacheControl in
              (case body of
                 None \<Rightarrow> (Inl (FirebaseAuthError ''jwk-processing-error''), w1)
               | Some ks \<Rightarrow>
                   if list_ex malformed_jwk ks
                   then (Inl (FirebaseAuthError ''invalid-jwk''), w1)
                   else
                     (case importAll pf ks [] of
                        None \<Rightarrow> (Inl (FirebaseAuthError ''jwk-processing-error''), w1)
                      | Some keyMap \<Rightarrow>
                          if length keyMap = 0
                          then (Inl (FirebaseAuthError ''no-valid-jwks''), w1)
                          else (Inr keyMap,
                                w1\<lparr>jwkCache :=
                                     Some \<lparr>jwk_keys = keyMap, jwk_expiry = now + maxAge\<rparr>\<rparr>)))))"

section \<open>Access-token minter: \<open>#createSignedJwt\<close> and \<open>#fetchAccessToken\<close>\<close>

text \<open>
  \<open>#createSignedJwt\<close> (lines 262 to 296): the claims of the assertion, and its encoding
  and signature by the platform.
\<close>

definition createSignedJwt ::
  "firebaseAdminConfig \<Rightarrow> platform \<Rightarrow> world \<Rightarrow> (js_error + string) \<times> world" where
  "createSignedJwt cfg pf w =
     (let now = now_seconds w;
          assertionExpiry = now + 3600;
          claims = \<lparr>a_iss = client_email (serviceAccount cfg),
                    a_sub = client_email (serviceAccount cfg),
                    a_aud = GOOGLE_OAUTH2_TOKEN_URL,
                    a_iat = now,
                    a_exp = assertionExpiry\<rparr>;
          w1 = effect pf SignJwt w in
      case sign_assertion pf claims (private_key (serviceAccount cfg)) of
        None \<Rightarrow> (Inl OtherError, w1)
      | Some signedJwt \<Rightarrow> (Inr signedJwt, w1))"

text \<open>The cached token, when there is one and \<open>now < accessTokenCache.expiry\<close>.\<close>

definition cachedAccessToken :: "world \<Rightarrow> accessToken option" where
  "cachedAccessToken w =
     (case accessTokenCache w of
        None \<Rightarrow> None
      | Some c \<Rightarrow> if now_seconds w < expiry c then Some c else None)"

text \<open>\<open>#fetchAccessToken\<close> (lines 298 to 327).\<close>

definition fetchAccessToken ::
  "firebaseAdminConfig \<Rightarrow> platform \<Rightarrow> world \<Rightarrow> (js_error + accessToken) \<times> world" where
  "fetchAccessToken cfg pf w =
     (let now = now_seconds w in
      case cachedAccessToken w of
        Some c \<Rightarrow> (Inr c, w)
      | None \<Rightarrow>
        (case createSignedJwt cfg pf w of
           (Inl e, w1) \<Rightarrow> (Inl e, w1)
         | (Inr signedJwt, w1) \<Rightarrow>
             let w2 = effect pf (Fetch GOOGLE_OAUTH2_TOKEN_URL) w1 in
             (case token_reply pf of
                TokenNetworkFailure \<Rightarrow> (Inl OtherError, w2)
              | TokenReply ok tokenData \<Rightarrow>
                  if \<not> ok then (Inl (FirebaseAuthError ''token-fetch-failed''), w2)
                  else
                    (case tokenData of
                       None \<Rightarrow> (Inl OtherError, w2)
                     | Some (access_token, expires_in) \<Rightarrow>
                         let expiryTime = now + expires_in - 60;
                             c = \<lparr>token = access_token, expiry = expiryTime\<rparr> in
                         (Inr c, w2\<lparr>accessTokenCache := Some c\<rparr>)))))"

section \<open>Admin API client\<close>

text \<open>
  \<open>#makeFirebaseAdminApiRequest\<close> (lines 329 to 360). The result is the \<open>users\<close>
  field of the parsed body, the only field a caller reads; \<open>{}\<close> has none.
\<close>

definition makeFirebaseAdminApiRequest ::
  "firebaseAdminConfig \<Rightarrow> platform \<Rightarrow> string \<Rightarrow> json \<Rightarrow> world
     \<Rightarrow> (js_error + firebaseUserRecord list option) \<times> world" where
  "makeFirebaseAdminApiRequest cfg pf endpoint body w =
     (case fetchAccessToken cfg pf w of
        (Inl e, w1) \<Rightarrow> (Inl e, w1)
      | (Inr accessToken, w1) \<Rightarrow>
          let url = IDENTITY_TOOLKIT_URL @ ''/'' @ endpoint @ ''?key='' @ projectId cfg;
              w2 = effect pf (Fetch url) w1 in
          (case admin_reply pf endpoint body of
             AdminNetworkFailure \<Rightarrow> (Inl OtherError, w2)
           | AdminNotOk errorDetails \<Rightarrow> (Inl (FirebaseAuthError errorDetails), w2)
           | AdminOk isJson parsed \<Rightarrow>
               if isJson
               then (case parsed of
                       None \<Rightarrow> (Inl OtherError, w2)
                     | Some users \<Rightarrow> (Inr users, w2))
               else (Inr None, w2)))"

text \<open>In a JSON array \<open>undefined\<close> is written as \<open>null\<close>.\<close>

definition json_of_string_option :: "string option \<Rightarrow> json" where
  "json_of_string_option v = (case v of None \<Rightarrow> JNull | Some s \<Rightarrow> JString s)"

text \<open>
  \<open>#getUserRecord\<close> (lines 363 to 384): every failure of the request is caught and
  becomes \<open>null\<close>.
\<close>

definition getUserRecord ::
  "firebaseAdminConfig \<Rightarrow> platform \<Rightarrow> string option \<Rightarrow> world
     \<Rightarrow> firebaseUserRecord option \<times> world" where
  "getUserRecord cfg pf userId w =
     (case makeFirebaseAdminApiRequest cfg pf ''accounts:lookup''
             (JObject [(''localId'', JArray [json_of_string_option userId])]) w of
        (Inl e, w1) \<Rightarrow> (None, w1)
      | (Inr users, w1) \<Rightarrow>
          (case users of
             Some (u # us) \<Rightarrow> (Some u, w1)
           | _ \<Rightarrow> (None, w1)))"

section \<open>Token verifier: \<open>verifyIdToken\<close>\<close>

text \<open>Lines 397 to 451: the argument, the decoding, the header and the claims.\<close>

definition checkClaims ::
  "firebaseAdminConfig \<Rightarrow> platform \<Rightarrow> string \<Rightarrow> bool \<Rightarrow> int
     \<Rightarrow> js_error + (jwtHeader \<times> decodedIdToken)" where
  "checkClaims cfg pf idToken checkRevoked now =
     (if idToken = [] then Inl (FirebaseAuthError ''invalid-argument'')
      else
        case jwt_decode pf idToken of
          DecodeThrows \<Rightarrow> Inl OtherError
        | Decoded None pl \<Rightarrow> Inl (FirebaseAuthError ''invalid-id-token'')
        | Decoded (Some header) None \<Rightarrow> Inl (FirebaseAuthError ''invalid-id-token'')
        | Decoded (Some header) (Some payload) \<Rightarrow>
            if alg header \<noteq> Some ''RS256''
            then Inl (FirebaseAuthError ''invalid-algorithm'')
            else if \<not> truthy (kid header)
            then Inl (FirebaseAuthError ''missing-kid'')
            else if aud payload \<noteq> Some (projectId cfg)
            then Inl (FirebaseAuthError ''invalid-audience'')
            else if iss payload \<noteq> Some (FIREBASE_ISSUER (projectId cfg))
            then Inl (FirebaseAuthError ''invalid-issuer'')
            else if (case sub payload of
                       None \<Rightarrow> True
                     | Some s \<Rightarrow> length s = 0 \<or> length s > 128)
            then Inl (FirebaseAuthError ''invalid-subject'')
            else if checkRevoked \<and> auth_time payload = None
            then Inl (FirebaseAuthError ''missing-auth-time'')
            else
              (case iat payload of
                 None \<Rightarrow> Inl (FirebaseAuthError ''missing-iat'')
               | Some issuedAt \<Rightarrow>
                   if issuedAt > now + 300
                   then Inl (FirebaseAuthError ''iat-in-future'')
                   else
                     (case exp payload of
                        None \<Rightarrow> Inl (FirebaseAuthError ''missing-expiration'')
                      | Some expiresAt \<Rightarrow>
                          if expiresAt \<le> now
                          then Inl (FirebaseAuthError ''token-expired'')
                          else Inr (header, payload))))"

text \<open>\<open>String.prototype.split\<close> on a one-character separator.\<close>

fun split_on :: "char \<Rightarrow> string \<Rightarrow> string list" where
  "split_on c [] = [[]]"
| "split_on c (x # xs) =
     (if x = c then [] # split_on c xs
      else (case split_on c xs of
              [] \<Rightarrow> [[x]]
            | p # ps \<Rightarrow> (x # p) # ps))"

text \<open>\<open>idToken.split('.').slice(0, 2).join('.')\<close>\<close>

definition dataPartOf :: "string \<Rightarrow> string" where
  "dataPartOf idToken =
     (case split_on CHR ''.'' idToken of
        [] \<Rightarrow> []
      | [p] \<Rightarrow> p
      | p # q # ps \<Rightarrow> p @ ''.'' @ q)"

text \<open>\<open>idToken.split('.')[2]\<close>, \<open>None\<close> for \<open>undefined\<close>.\<close>

definition signaturePartOf :: "string \<Rightarrow> string option" where
  "signaturePartOf idToken =
     (case split_on CHR ''.'' idToken of
        p # q # r # ps \<Rightarrow> Some r
      | _ \<Rightarrow> None)"

text \<open>
  Lines 453 to 489: the signature. The \<open>catch\<close> rethrows a \<open>FirebaseAuthError\<close> and
  turns any other exception into \<open>signature-verification-failed\<close>.
\<close>

definition verifySignature ::
  "platform \<Rightarrow> string \<Rightarrow> jwtHeader \<Rightarrow> world \<Rightarrow> (js_error + unit) \<times> world" where
  "verifySignature pf idToken header w =
     (case fetchGooglePublicKeys pf w of
        (Inl (FirebaseAuthError c), w1) \<Rightarrow> (Inl (FirebaseAuthError c), w1)
      | (Inl OtherError, w1) \<Rightarrow> (Inl (FirebaseAuthError ''signature-verification-failed''), w1)
      | (Inr publicKeysMap, w1) \<Rightarrow>
          (case (case kid header of None \<Rightarrow> None | Some k \<Rightarrow> map_of publicKeysMap k) of
             None \<Rightarrow> (Inl (FirebaseAuthError ''no-matching-kid''), w1)
           | Some publicKey \<Rightarrow>
               (case signaturePartOf idToken of
                  None \<Rightarrow> (Inl (FirebaseAuthError ''invalid-id-token-format''), w1)
                | Some signaturePart \<Rightarrow>
                    if signaturePart = []
                    then (Inl (FirebaseAuthError ''invalid-id-token-format''), w1)
                    else
                      (case base64_decode pf signaturePart of
                         None \<Rightarrow>
                           (Inl (FirebaseAuthError ''signature-verification-failed''), w1)
                       | Some signatureBuffer \<Rightarrow>
                           if dataPartOf idToken = []
                           then (Inl (FirebaseAuthError ''invalid-id-token-format''), w1)
                           else
                             (case subtle_verify pf publicKey signatureBuffer
                                     (dataPartOf idToken) of
                                None \<Rightarrow>
                                  (Inl (FirebaseAuthError ''signature-verification-failed''), w1)
                              | Some isValid \<Rightarrow>
                                  if \<not> isValid
                                  then (Inl (FirebaseAuthError ''invalid-signature''), w1)
                                  else (Inr (), w1))))))"

text \<open>
  Lines 497 to 525: the revocation check. \<open>authTime\<close> is the \<open>auth_time\<close> read before
  the signature was verified; \<open>undefined < n\<close> is false.
\<close>

definition checkRevocation ::
  "firebaseAdminConfig \<Rightarrow> platform \<Rightarrow> int option \<Rightarrow> decodedIdToken \<Rightarrow> world
     \<Rightarrow> (js_error + decodedIdToken) \<times> world" where
  "checkRevocation cfg pf authTime payload w =
     (case getUserRecord cfg pf (uid payload) w of
        (None, w1) \<Rightarrow> (Inl (FirebaseAuthError ''user-not-found''), w1)
      | (Some userRecord, w1) \<Rightarrow>
          (case tokensValidAfterTime userRecord of
             None \<Rightarrow> (Inr payload, w1)
           | Some tv \<Rightarrow>
               if tv = [] then (Inr payload, w1)
               else
                 (case parseInt tv of
                    Some validSinceTimestampSeconds \<Rightarrow>
                      if (case authTime of
                            None \<Rightarrow> False
                          | Some tokenAuthTimeSeconds \<Rightarrow>
                              tokenAuthTimeSeconds < validSinceTimestampSeconds)
                      then (Inl (FirebaseAuthError ''id-token-revoked''), w1)
                      else (Inr payload, w1)
                  | None \<Rightarrow> (Inl (FirebaseAuthError ''invalid-revocation-format''), w1))))"

text \<open>\<open>verifyIdToken\<close> (lines 396 to 528): the stages in their order.\<close>

definition verifyIdToken ::
  "firebaseAdminConfig \<Rightarrow> platform \<Rightarrow> string \<Rightarrow> bool \<Rightarrow> world
     \<Rightarrow> (js_error + decodedIdToken) \<times> world" where
  "verifyIdToken cfg pf idToken checkRevoked w =
     (case checkClaims cfg pf idToken checkRevoked (now_seconds w) of
        Inl e \<Rightarrow> (Inl e, w)
      | Inr (header, payload) \<Rightarrow>
          (case verifySignature pf idToken header w of
             (Inl e, w1) \<Rightarrow> (Inl e, w1)
           | (Inr u, w1) \<Rightarrow>
               let payload' = payload\<lparr>uid := sub payload\<rparr> in
               if checkRevoked
               then checkRevocation cfg pf (auth_time payload) payload' w1
               else (Inr payload', w1)))"

section \<open>The management operations\<close>

text \<open>\<open>revokeRefreshTokens\<close> (lines 589 to 595).\<close>

definition revokeRefreshTokens ::
  "firebaseAdminConfig \<Rightarrow> platform \<Rightarrow> string option \<Rightarrow> world \<Rightarrow> (js_error + unit) \<times> world" where
  "revokeRefreshTokens cfg pf userId w =
     (case makeFirebaseAdminApiRequest cfg pf ''accounts:update''
             (JObject [(''localId'', json_of_string_option userId),
                       (''validSince'', JString (Number_toString pf (now_seconds w)))]) w of
        (Inl e, w1) \<Rightarrow> (Inl e, w1)
      | (Inr r, w1) \<Rightarrow> (Inr (), w1))"





section \<open>middleware.ts: the request gate\<close>

record request =
  pathname :: string
  mode :: "string option"
  oobCode :: "string option"
  authorization :: "string option"

datatype response_kind = Next | Redirect string | ErrorBody

text \<open>
  A response: what it is, its status and its headers. The body of an error response is
  not modelled.
\<close>

record response =
  kind :: response_kind
  status :: nat
  headers :: "(string \<times> string) list"

text \<open>The responses that the framework builds; none of them sets a security header.\<close>

definition NextResponse_next :: response where
  "NextResponse_next = \<lparr>kind = Next, status = 200, headers = [(''x-middleware-next'', ''1'')]\<rparr>"

definition NextResponse_redirect :: "string \<Rightarrow> response" where
  "NextResponse_redirect target =
     \<lparr>kind = Redirect target, status = 307, headers = [(''location'', target)]\<rparr>"

definition NextResponse_json :: "nat \<Rightarrow> response" where
  "NextResponse_json st =
     \<lparr>kind = ErrorBody, status = st, headers = [(''content-type'', ''application/json'')]\<rparr>"

definition new_Response :: "nat \<Rightarrow> response" where
  "new_Response st =
     \<lparr>kind = ErrorBody, status = st,
      headers = [(''content-type'', ''text/plain;charset=UTF-8'')]\<rparr>"

definition headers_set :: "string \<Rightarrow> string \<Rightarrow> response \<Rightarrow> response" where
  "headers_set name v r = r\<lparr>headers := AList.update name v (headers r)\<rparr>"

definition headers_get :: "response \<Rightarrow> string \<Rightarrow> string option" where
  "headers_get r name = map_of (headers r) name"

text \<open>
  \<open>apiError\<close>, the default export of \<open>lib/apiError.ts\<close> (the error handler listed after
  \<open>firebase-admin.ts\<close>), called with an object that is no validation error and has a
  numeric \<open>status\<close>: a new \<open>Response\<close> with that status.
\<close>

definition apiError :: "nat \<Rightarrow> response" where
  "apiError st = new_Response st"

text \<open>\<open>redirect(req, path)\<close>: the target is \<open>path\<close>, resolved against the request's URL.\<close>

definition redirect :: "request \<Rightarrow> string \<Rightarrow> response" where
  "redirect req path = NextResponse_redirect path"

text \<open>\<open>String.prototype.split\<close> on a separator string.\<close>

function split_str :: "string \<Rightarrow> string \<Rightarrow> string list" where
  "split_str sep [] = [[]]"
| "split_str sep (c # cs) =
     (if sep \<noteq> [] \<and> take (length sep) (c # cs) = sep
      then [] # split_str sep (drop (length sep) (c # cs))
      else (case split_str sep cs of
              [] \<Rightarrow> [[c]]
            | p # ps \<Rightarrow> (c # p) # ps))"
  by pat_completeness auto
termination
  by (relation "measure (\<lambda>(sep, s). length s)") auto

text \<open>\<open>getToken\<close> of \<open>lib/utils.ts\<close>: \<open>headers.get('authorization')?.split('Bearer ')[1]\<close>\<close>

definition getToken :: "request \<Rightarrow> string option" where
  "getToken req =
     (case authorization req of
        None \<Rightarrow> None
      | Some h \<Rightarrow> (case split_str ''Bearer '' h of p # q # ps \<Rightarrow> Some q | _ \<Rightarrow> None))"

text \<open>
  \<open>cspHeader.replace(/\s{2,}/g, ' ').trim()\<close>. The template \<open>cspHeader\<close> is a
  constant of ASCII characters, among which \<open>\s\<close> and \<open>trim\<close> know these six.
\<close>

definition is_js_space :: "char \<Rightarrow> bool" where
  "is_js_space c = (c \<in> set [CHR 0x20, CHR 0x09, CHR 0x0A, CHR 0x0B, CHR 0x0C, CHR 0x0D])"


function collapse_spaces :: "string \<Rightarrow> string" where
  "collapse_spaces [] = []"
| "collapse_spaces (c # cs) =
     (if is_js_space c
      then (if cs \<noteq> [] \<and> is_js_space (hd cs)
            then CHR '' '' # collapse_spaces (dropWhile is_js_space cs)
            else c # collapse_spaces cs)
      else c # collapse_spaces cs)"
  by pat_completeness auto
termination
  by (relation "measure length") (auto simp: le_imp_less_Suc length_dropWhile_le)

definition trim :: "string \<Rightarrow> string" where
  "trim s = rev (dropWhile is_js_space (rev (dropWhile is_js_space s)))"

definition cspHeader :: string where
  "cspHeader =
     [CHR 0x0A] @ ''    frame-ancestors 'self';  '' @ [CHR 0x0A] @ ''  ''"

definition contentSecurityPolicyHeaderValue :: string where
  "contentSecurityPolicyHeaderValue = trim (collapse_spaces cspHeader)"

definition authRoutes :: "string list" where
  "authRoutes =
     [''/login'', ''/signup'', ''/reset'', ''/forget-pass'', ''/reset-pass'', ''/verify-email'',
      ''/recover-email'']"

text \<open>
  The excluded routes. Each is a \<open>URLPattern\<close> with a fixed path name and any search and
  hash, tested on the path name of the request: it matches that path name only.
\<close>

definition excludedRoutes :: "string list" where
  "excludedRoutes = [''/api/lemon'', ''/api/hc'', ''/api/hello'']"

definition startsWith :: "string \<Rightarrow> string \<Rightarrow> bool" where
  "startsWith s p = (take (length p) s = p)"

text \<open>
  The environment of the process: the two variables, and \<open>JSON.parse\<close> of the service
  account (\<open>None\<close> when it throws or gives no object).
\<close>

record process_env =
  FIREBASE_PROJECT_ID :: "string option"
  FIREBASE_SERVICE_ACCOUNT_JSON :: "string option"
  JSON_parse :: "string \<Rightarrow> serviceAccount option"

text \<open>The constructor of \<open>FirebaseAdmin\<close>: \<open>None\<close> when it throws.\<close>

definition new_FirebaseAdmin :: "firebaseAdminConfig \<Rightarrow> firebaseAdminConfig option" where
  "new_FirebaseAdmin config =
     (if projectId config = [] then None
      else if private_key (serviceAccount config) = []
              \<or> client_email (serviceAccount config) = [] then None
      else Some config)"

text \<open>
  \<open>initializeFirebaseAdmin\<close> (middleware.ts, lines 14 to 34) on the module-level variable
  \<open>firebaseAdmin\<close>: whether it returned, and the variable after it.
\<close>

definition initializeFirebaseAdmin ::
  "process_env \<Rightarrow> firebaseAdminConfig option \<Rightarrow> bool \<times> firebaseAdminConfig option" where
  "initializeFirebaseAdmin penv admin =
     (case admin of
        Some a \<Rightarrow> (True, admin)
      | None \<Rightarrow>
          if \<not> truthy (FIREBASE_PROJECT_ID penv) \<or> \<not> truthy (FIREBASE_SERVICE_ACCOUNT_JSON penv)
          then (False, None)
          else
            (case (FIREBASE_PROJECT_ID penv, FIREBASE_SERVICE_ACCOUNT_JSON penv) of
               (Some pid, Some js) \<Rightarrow>
                 (case JSON_parse penv js of
                    None \<Rightarrow> (False, None)
                  | Some sa \<Rightarrow>
                      (case new_FirebaseAdmin \<lparr>projectId = pid, serviceAccount = sa\<rparr> of
                         None \<Rightarrow> (False, None)
                       | Some a \<Rightarrow> (True, Some a)))
             | _ \<Rightarrow> (False, None)))"

text \<open>The state of the worker: the middleware's \<open>firebaseAdmin\<close> and the module state.\<close>

record server =
  firebaseAdmin :: "firebaseAdminConfig option"
  world :: world

text \<open>
  The verification block of the middleware (lines 130 to 149): the decoded token or the
  verification error. An error that is not a \<open>FirebaseAuthError\<close> is replaced by a new
  \<open>Error\<close>, as are the missing token and the missing admin instance.
\<close>

definition verifyRequest ::
  "platform \<Rightarrow> string option \<Rightarrow> firebaseAdminConfig option \<Rightarrow> world
     \<Rightarrow> (js_error + decodedIdToken) \<times> world" where
  "verifyRequest pf tok admin w =
     (case (tok, admin) of
        (Some t, Some a) \<Rightarrow>
          if t = [] then (Inl OtherError, w)
          else
            (case verifyIdToken a pf t False w of
               (Inr decodedToken, w1) \<Rightarrow> (Inr decodedToken, w1)
             | (Inl (FirebaseAuthError c), w1) \<Rightarrow> (Inl (FirebaseAuthError c), w1)
             | (Inl OtherError, w1) \<Rightarrow> (Inl OtherError, w1))
      | _ \<Rightarrow> (Inl OtherError, w))"

text \<open>Line 157: the status of the error response for a token that is not valid.\<close>

definition denyStatus :: "js_error \<Rightarrow> nat" where
  "denyStatus verificationError =
     (case verificationError of
        FirebaseAuthError c \<Rightarrow>
          if c = ''id-token-expired'' \<or> c = ''id-token-revoked'' then 401 else 403
      | OtherError \<Rightarrow> 403)"

text \<open>
  The \<open>try\<close> around \<open>firebaseAdmin.revokeRefreshTokens\<close>: whatever it throws is logged
  and dropped (also the \<open>TypeError\<close> of an undefined \<open>firebaseAdmin\<close>).
\<close>

definition tryRevoke ::
  "firebaseAdminConfig option \<Rightarrow> platform \<Rightarrow> string option \<Rightarrow> world \<Rightarrow> world" where
  "tryRevoke admin pf userId w =
     (case admin of
        None \<Rightarrow> w
      | Some a \<Rightarrow> snd (revokeRefreshTokens a pf userId w))"

text \<open>A value inside a template string or a header: \<open>null\<close> and \<open>undefined\<close> are spelled out.\<close>

definition undefinable :: "string option \<Rightarrow> string" where
  "undefinable v = (case v of None \<Rightarrow> ''undefined'' | Some s \<Rightarrow> s)"

definition nullable :: "string option \<Rightarrow> string" where
  "nullable v = (case v of None \<Rightarrow> ''null'' | Some s \<Rightarrow> s)"

text \<open>
  \<open>middleware\<close> (lines 44 to 205): the response, and the state of the worker after it.
\<close>

definition middleware ::
  "process_env \<Rightarrow> platform \<Rightarrow> request \<Rightarrow> server \<Rightarrow> response \<times> server" where
  "middleware penv pf req srv =
     (let res = headers_set ''Content-Security-Policy'' contentSecurityPolicyHeaderValue
                  NextResponse_next in
      if pathname req \<in> set excludedRoutes then (res, srv)
      else if pathname req = ''/auth/action'' then
        (if mode req = Some ''signIn''
         then (redirect req (''/signup?code='' @ nullable (oobCode req)), srv)
         else if mode req = Some ''resetPassword''
         then (redirect req (''/reset-pass?code='' @ nullable (oobCode req)), srv)
         else if mode req = Some ''verifyEmail''
         then (redirect req (''/verify-email?code='' @ nullable (oobCode req)), srv)
         else if mode req = Some ''recoverEmail''
         then (redirect req (''/recover-email?code='' @ nullable (oobCode req)), srv)
         else (NextResponse_next, srv))
      else
        case initializeFirebaseAdmin penv (firebaseAdmin srv) of
          (initialized, admin) \<Rightarrow>
            if \<not> initialized \<and> startsWith (pathname req) ''/api''
            then (NextResponse_json 500, srv\<lparr>firebaseAdmin := admin\<rparr>)
            else
              (case verifyRequest pf (getToken req) admin (world srv) of
                 (Inl verificationError, w1) \<Rightarrow>
                   if startsWith (pathname req) ''/api''
                   then (apiError (denyStatus verificationError),
                         \<lparr>firebaseAdmin = admin, world = w1\<rparr>)
                   else if pathname req \<in> set (''/try'' # authRoutes)
                   then (res, \<lparr>firebaseAdmin = admin, world = w1\<rparr>)
                   else (redirect req ''/login'', \<lparr>firebaseAdmin = admin, world = w1\<rparr>)
               | (Inr decodedToken, w1) \<Rightarrow>
                   if email_verified decodedToken \<noteq> Some True
                   then
                     (let w2 = tryRevoke admin pf (uid decodedToken) w1 in
                      if startsWith (pathname req) ''/api''
                      then (apiError 401, \<lparr>firebaseAdmin = admin, world = w2\<rparr>)
                      else if pathname req \<in> set authRoutes
                      then (res, \<lparr>firebaseAdmin = admin, world = w2\<rparr>)
                      else (redirect req ''/login'', \<lparr>firebaseAdmin = admin, world = w2\<rparr>))
                   else if startsWith (pathname req) ''/api''
                   then
                     (let res1 = headers_set ''x-uid'' (undefinable (uid decodedToken)) res;
                          res2 = (case iat decodedToken of
                                    None \<Rightarrow> res1
                                  | Some i \<Rightarrow>
                                      if i = 0 then res1
                                      else headers_set ''x-iat'' (Number_toString pf i) res1) in
                      (res2, \<lparr>firebaseAdmin = admin, world = w1\<rparr>))
                   else if pathname req \<in> set (''/try'' # authRoutes)
                   then (redirect req ''/'', \<lparr>firebaseAdmin = admin, world = w1\<rparr>)
                   else (res, \<lparr>firebaseAdmin = admin, world = w1\<rparr>)))"

section \<open>mongoDurableObject.ts: the connection proxy\<close>

text \<open>The values of a document; an \<open>ObjectId\<close> is given by its hexadecimal string.\<close>

datatype bson =
    BNull
  | BBool bool
  | BNumber int
  | BString string
  | BObjectId string
  | BArray "bson list"
  | BDocument "(string \<times> bson) list"

type_synonym document = "(string \<times> bson) list"

text \<open>
  Lines 99 to 104: the shallow copy of the raw result, in which an \<open>_id\<close> that is an
  \<open>ObjectId\<close> is replaced by its string.
\<close>

definition serializableResult :: "document \<Rightarrow> document" where
  "serializableResult rawResult =
     (case map_of rawResult ''_id'' of
        Some (BObjectId hex) \<Rightarrow> AList.update ''_id'' (BString hex) rawResult
      | _ \<Rightarrow> rawResult)"

text \<open>Lines 93 to 110: what \<open>findOne\<close> returns for a raw result of the driver.\<close>

definition findOne_result :: "document option \<Rightarrow> document option" where
  "findOne_result rawResult =
     (case rawResult of
        None \<Rightarrow> None
      | Some d \<Rightarrow> Some (serializableResult d))"

text \<open>Whether a raw identifier object occurs in a value, at any depth.\<close>

fun contains_ObjectId :: "bson \<Rightarrow> bool" where
  "contains_ObjectId (BObjectId h) = True"
| "contains_ObjectId (BArray xs) = list_ex contains_ObjectId xs"
| "contains_ObjectId (BDocument kvs) = list_ex (\<lambda>kv. contains_ObjectId (snd kv)) kvs"
| "contains_ObjectId v = False"

definition id_is_string :: "document \<Rightarrow> bool" where
  "id_is_string d = (case map_of d ''_id'' of Some (BString s) \<Rightarrow> True | _ \<Rightarrow> False)"

text \<open>
  The durable object runs its calls on one thread: a call runs until it awaits, and
  another call or the continuation of a settled promise runs next. The state of the
  object, with the promises that \<open>ensureConnected\<close> created (one for each call of
  \<open>client.connect\<close>, in the order of their creation) and the point each \<open>findOne\<close> call
  has reached.
\<close>

datatype db = Db

datatype promise_state = Pending | Fulfilled | Rejected

datatype call_state =
    NotStarted
  | AwaitExisting nat
  | AwaitOwn nat
  | Connected
  | Querying
  | Returned "document option"
  | Thrown

record mongoDO =
  dbInstance :: "db option"
  connectPromise :: "nat option"
  promises :: "promise_state list"
  connect_calls :: nat
  calls :: "call_state list"

text \<open>The object after its constructor, with \<open>n\<close> calls of \<open>findOne\<close> that have not run yet.\<close>

definition fresh :: "nat \<Rightarrow> mongoDO" where
  "fresh n =
     \<lparr>dbInstance = None, connectPromise = None, promises = [], connect_calls = 0,
      calls = replicate n NotStarted\<rparr>"

definition promise_at :: "mongoDO \<Rightarrow> nat \<Rightarrow> promise_state" where
  "promise_at s p = (if p < length (promises s) then promises s ! p else Pending)"

text \<open>
  Lines 55 to 70: call \<open>i\<close> starts a connection attempt. The asynchronous function runs
  up to its \<open>await\<close>, so \<open>client.connect\<close> has been called when its promise is stored in
  \<open>connectPromise\<close>; the call then awaits that promise.
\<close>

definition start_connect :: "nat \<Rightarrow> mongoDO \<Rightarrow> mongoDO" where
  "start_connect i s =
     s\<lparr>connect_calls := connect_calls s + 1,
       promises := promises s @ [Pending],
       connectPromise := Some (length (promises s)),
       calls := (calls s)[i := AwaitOwn (length (promises s))]\<rparr>"

text \<open>
  Call \<open>i\<close> runs until its next \<open>await\<close>: from the start of \<open>findOne\<close> into
  \<open>ensureConnected\<close> (lines 41 to 70), from an awaited promise that has settled (lines 48
  to 52, line 70), or from the return of \<open>ensureConnected\<close> to the query (lines 86 to 90).
  A call that awaits a pending promise, or the driver, does not move.
\<close>

definition run_call :: "nat \<Rightarrow> mongoDO \<Rightarrow> mongoDO" where
  "run_call i s =
     (if length (calls s) \<le> i then s
      else
        case calls s ! i of
          NotStarted \<Rightarrow>
            if dbInstance s \<noteq> None then s\<lparr>calls := (calls s)[i := Connected]\<rparr>
            else (case connectPromise s of
                    Some p \<Rightarrow> s\<lparr>calls := (calls s)[i := AwaitExisting p]\<rparr>
                  | None \<Rightarrow> start_connect i s)
        | AwaitExisting p \<Rightarrow>
            (case promise_at s p of
               Pending \<Rightarrow> s
             | Rejected \<Rightarrow> s\<lparr>calls := (calls s)[i := Thrown]\<rparr>
             | Fulfilled \<Rightarrow>
                 if dbInstance s \<noteq> None then s\<lparr>calls := (calls s)[i := Connected]\<rparr>
                 else start_connect i s)
        | AwaitOwn p \<Rightarrow>
            (case promise_at s p of
               Pending \<Rightarrow> s
             | Rejected \<Rightarrow> s\<lparr>calls := (calls s)[i := Thrown]\<rparr>
             | Fulfilled \<Rightarrow> s\<lparr>calls := (calls s)[i := Connected]\<rparr>)
        | Connected \<Rightarrow>
            if dbInstance s = None then s\<lparr>calls := (calls s)[i := Thrown]\<rparr>
            else s\<lparr>calls := (calls s)[i := Querying]\<rparr>
        | Querying \<Rightarrow> s
        | Returned r \<Rightarrow> s
        | Thrown \<Rightarrow> s)"

text \<open>
  Lines 57 to 66: the driver settles the connection attempt of promise \<open>p\<close>, and the
  asynchronous function continues: it stores the database handle, or it clears the
  handle and \<open>connectPromise\<close> and throws again, which rejects its promise.
\<close>

definition connect_settles :: "nat \<Rightarrow> bool \<Rightarrow> mongoDO \<Rightarrow> mongoDO" where
  "connect_settles p ok s =
     (if promise_at s p = Pending \<and> p < length (promises s)
      then (if ok
            then s\<lparr>dbInstance := Some Db, promises := (promises s)[p := Fulfilled]\<rparr>
            else s\<lparr>dbInstance := None, connectPromise := None,
                   promises := (promises s)[p := Rejected]\<rparr>)
      else s)"

text \<open>
  Lines 90 to 117: the driver answers the query of call \<open>i\<close> with a raw result, or throws
  (\<open>None\<close>).
\<close>

definition query_settles :: "nat \<Rightarrow> document option option \<Rightarrow> mongoDO \<Rightarrow> mongoDO" where
  "query_settles i answer s =
     (if i < length (calls s) \<and> calls s ! i = Querying
      then (case answer of
              None \<Rightarrow> s\<lparr>calls := (calls s)[i := Thrown]\<rparr>
            | Some rawResult \<Rightarrow> s\<lparr>calls := (calls s)[i := Returned (findOne_result rawResult)]\<rparr>)
      else s)"

text \<open>What the scheduler does next, and a run of the object under a schedule.\<close>

datatype step = Run nat | ConnectSettles nat bool | QuerySettles nat "document option option"

fun do_step :: "step \<Rightarrow> mongoDO \<Rightarrow> mongoDO" where
  "do_step (Run i) s = run_call i s"
| "do_step (ConnectSettles p ok) s = connect_settles p ok s"
| "do_step (QuerySettles i answer) s = query_settles i answer s"

fun run :: "step list \<Rightarrow> mongoDO \<Rightarrow> mongoDO" where
  "run [] s = s"
| "run (x # xs) s = run xs (do_step x s)"

text \<open>
  The measures of a run: the connection attempts that failed, whether a connection is
  established or being established, and whether every call has started.
\<close>

definition failed_attempts :: "mongoDO \<Rightarrow> nat" where
  "failed_attempts s = length (filter (\<lambda>p. p = Rejected) (promises s))"

definition connection_live :: "mongoDO \<Rightarrow> bool" where
  "connection_live s = (dbInstance s \<noteq> None \<or> Pending \<in> set (promises s))"

definition all_started :: "mongoDO \<Rightarrow> bool" where
  "all_started s = (NotStarted \<notin> set (calls s))"

text \<open>
  The invariant of the object: every promise but the last one is rejected, and the last
  one, when it is not, is the promise stored in \<open>connectPromise\<close>: pending while there is
  no database handle, fulfilled once there is one.
\<close>

definition coalesced :: "mongoDO \<Rightarrow> bool" where
  "coalesced s =
     (connect_calls s = length (promises s)
      \<and> (\<exists>k. (promises s = replicate k Rejected
                \<and> dbInstance s = None \<and> connectPromise s = None)
             \<or> (promises s = replicate k Rejected @ [Pending]
                \<and> dbInstance s = None \<and> connectPromise s = Some k)
             \<or> (promises s = replicate k Rejected @ [Fulfilled]
                \<and> dbInstance s = Some Db \<and> connectPromise s = Some k))
      \<and> (promises s = [] \<longrightarrow> set (calls s) \<subseteq> {NotStarted}))"

section \<open>Concrete inputs\<close>

text \<open>
  A project, a token that verifies at the second 1000, and a platform whose end points
  answer as the identity provider does. The other inputs below change one thing each.
\<close>

definition demo_config :: firebaseAdminConfig where
  "demo_config =
     \<lparr>projectId = ''demo'',
      serviceAccount = \<lparr>private_key = ''pk'', client_email = ''sa@demo''\<rparr>\<rparr>"

definition demo_header :: jwtHeader where
  "demo_header = \<lparr>alg = Some ''RS256'', kid = Some ''k1''\<rparr>"

definition demo_payload :: decodedIdToken where
  "demo_payload =
     \<lparr>aud = Some ''demo'', iss = Some ''https://securetoken.google.com/demo'',
      sub = Some ''u1'', auth_time = Some 900, iat = Some 900, exp = Some 2000,
      email_verified = Some True, uid = None\<rparr>"

definition demo_jwk :: jsonWebKey where
  "demo_jwk =
     \<lparr>jwk_kty = Some ''RSA'', jwk_alg = Some ''RS256'', jwk_kid = Some ''k1'',
      jwk_n = Some ''n'', jwk_e = Some ''AQAB''\<rparr>"

definition demo_user :: firebaseUserRecord where
  "demo_user = \<lparr>localId = ''u1'', tokensValidAfterTime = None\<rparr>"

text \<open>
  The serializers of the example platform. They print an integer by its decimal digits
  and a value as compact JSON, escaping the quote, the backslash and the control
  characters of a string and writing every other byte as it is.
\<close>

definition digit_char :: "nat \<Rightarrow> char" where
  "digit_char d = char_of (48 + d)"

fun decimal_digits :: "nat \<Rightarrow> string \<Rightarrow> string" where
  "decimal_digits n acc =
     (if n < 10 then digit_char n # acc
      else decimal_digits (n div 10) (digit_char (n mod 10) # acc))"

definition demo_toString :: "int \<Rightarrow> string" where
  "demo_toString i =
     (if i < 0 then CHR ''-'' # decimal_digits (nat (- i)) []
      else decimal_digits (nat i) [])"

definition hex_digit :: "nat \<Rightarrow> char" where
  "hex_digit n = (if n < 10 then char_of (48 + n) else char_of (87 + n))"

definition escape_char :: "char \<Rightarrow> string" where
  "escape_char c =
     (if c = CHR 0x22 then [CHR 0x5C, CHR 0x22]
      else if c = CHR 0x5C then [CHR 0x5C, CHR 0x5C]
      else if c = CHR 0x08 then [CHR 0x5C, CHR ''b'']
      else if c = CHR 0x0C then [CHR 0x5C, CHR ''f'']
      else if c = CHR 0x0A then [CHR 0x5C, CHR ''n'']
      else if c = CHR 0x0D then [CHR 0x5C, CHR ''r'']
      else if c = CHR 0x09 then [CHR 0x5C, CHR ''t'']
      else if (of_char c :: nat) < 32
      then [CHR 0x5C, CHR ''u'', CHR ''0'', CHR ''0'',
            hex_digit (of_char c div 16), hex_digit (of_char c mod 16)]
      else [c])"

definition quote :: "string \<Rightarrow> string" where
  "quote s = [CHR 0x22] @ concat (map escape_char s) @ [CHR 0x22]"

fun join_comma :: "string list \<Rightarrow> string" where
  "join_comma [] = []"
| "join_comma [x] = x"
| "join_comma (x # y # ys) = x @ '','' @ join_comma (y # ys)"

fun demo_stringify :: "json \<Rightarrow> string" where
  "demo_stringify JNull = ''null''"
| "demo_stringify (JBool b) = (if b then ''true'' else ''false'')"
| "demo_stringify (JNumber n) = demo_toString n"
| "demo_stringify (JString s) = quote s"
| "demo_stringify (JArray xs) = ''['' @ join_comma (map demo_stringify xs) @ '']''"
| "demo_stringify (JObject kvs) =
     ''{'' @ join_comma (map (\<lambda>kv. quote (fst kv) @ '':'' @ demo_stringify (snd kv)) kvs)
       @ ''}''"

definition demo_platform :: platform where
  "demo_platform =
     \<lparr>delay = (\<lambda>e. 5),
      jwt_decode = (\<lambda>t. Decoded (Some demo_header) (Some demo_payload)),
      jwks_reply = JwksReply True (Some ''public, max-age=19000, must-revalidate'')
                     (Some [demo_jwk]),
      importKey = (\<lambda>k. Some (CryptoKey 1)),
      base64_decode = (\<lambda>s. Some s),
      subtle_verify = (\<lambda>k sg d. Some True),
      sign_assertion = (\<lambda>c k. Some ''assertion''),
      token_reply = TokenReply True (Some (''at'', 3600)),
      admin_reply = (\<lambda>e b. AdminOk True (Some (Some [demo_user]))),
      Number_toString = demo_toString,
      JSON_stringify = demo_stringify\<rparr>"

definition demo_world :: world where
  "demo_world = \<lparr>clock = 1000000, jwkCache = None, accessTokenCache = None, trace = []\<rparr>"

definition wrong_aud_payload :: decodedIdToken where
  "wrong_aud_payload = demo_payload\<lparr>aud := Some ''other''\<rparr>"

definition wrong_aud_platform :: platform where
  "wrong_aud_platform =
     demo_platform\<lparr>jwt_decode := (\<lambda>t. Decoded (Some demo_header) (Some wrong_aud_payload))\<rparr>"

definition hs256_header :: jwtHeader where
  "hs256_header = demo_header\<lparr>alg := Some ''HS256''\<rparr>"

definition hs256_platform :: platform where
  "hs256_platform =
     demo_platform\<lparr>jwt_decode := (\<lambda>t. Decoded (Some hs256_header) (Some wrong_aud_payload))\<rparr>"

definition demo_env :: process_env where
  "demo_env =
     \<lparr>FIREBASE_PROJECT_ID = Some ''demo'', FIREBASE_SERVICE_ACCOUNT_JSON = Some ''{}'',
      JSON_parse = (\<lambda>s. Some \<lparr>private_key = ''pk'', client_email = ''sa@demo''\<rparr>)\<rparr>"

definition demo_server :: server where
  "demo_server = \<lparr>firebaseAdmin = None, world = demo_world\<rparr>"

definition expired_payload :: decodedIdToken where
  "expired_payload = demo_payload\<lparr>exp := Some 999\<rparr>"

definition expired_platform :: platform where
  "expired_platform =
     demo_platform\<lparr>jwt_decode := (\<lambda>t. Decoded (Some demo_header) (Some expired_payload))\<rparr>"

definition api_request :: request where
  "api_request =
     \<lparr>pathname = ''/api/forms/xyz'', mode = None, oobCode = None,
      authorization = Some ''Bearer h.p.s''\<rparr>"

definition page_request :: request where
  "page_request =
     \<lparr>pathname = ''/dashboard'', mode = None, oobCode = None, authorization = None\<rparr>"

text \<open>Platforms whose Admin API or key end point answers in a given way.\<close>

definition platform_with_admin :: "admin_reply \<Rightarrow> platform" where
  "platform_with_admin r = demo_platform\<lparr>admin_reply := (\<lambda>e b. r)\<rparr>"

definition users_reply :: "firebaseUserRecord list \<Rightarrow> admin_reply" where
  "users_reply us = AdminOk True (Some (Some us))"

definition user_valid_after :: "string \<Rightarrow> firebaseUserRecord" where
  "user_valid_after tv = \<lparr>localId = ''u1'', tokensValidAfterTime = Some tv\<rparr>"

definition platform_with_jwks :: "string option \<Rightarrow> jsonWebKey list \<Rightarrow> platform" where
  "platform_with_jwks cacheControl ks =
     demo_platform\<lparr>jwks_reply := JwksReply True cacheControl (Some ks)\<rparr>"

definition bad_jwk :: jsonWebKey where
  "bad_jwk = demo_jwk\<lparr>jwk_kty := Some ''EC'', jwk_kid := Some ''k2''\<rparr>"

text \<open>The world after the keys were fetched, after a user was looked up, and after a token
  was minted in the first world.\<close>

definition keys_world :: world where
  "keys_world =
     \<lparr>clock = 1000005,
      jwkCache = Some \<lparr>jwk_keys = [(''k1'', CryptoKey 1)], jwk_expiry = 20000\<rparr>,
      accessTokenCache = None,
      trace = [GetPublicKeys, Fetch GOOGLE_JWK_URL]\<rparr>"

definition lookup_world :: world where
  "lookup_world =
     \<lparr>clock = 1000020,
      jwkCache = Some \<lparr>jwk_keys = [(''k1'', CryptoKey 1)], jwk_expiry = 20000\<rparr>,
      accessTokenCache = Some \<lparr>token = ''at'', expiry = 4540\<rparr>,
      trace = [GetPublicKeys, Fetch GOOGLE_JWK_URL, SignJwt, Fetch GOOGLE_OAUTH2_TOKEN_URL,
               Fetch ''https://identitytoolkit.googleapis.com/v1/accounts:lookup?key=demo'']\<rparr>"

definition demo_token :: accessToken where
  "demo_token = \<lparr>token = ''at'', expiry = 4540\<rparr>"

definition token_world :: world where
  "token_world =
     \<lparr>clock = 1000010, jwkCache = None, accessTokenCache = Some demo_token,
      trace = [SignJwt, Fetch GOOGLE_OAUTH2_TOKEN_URL]\<rparr>"

text \<open>A world whose cached keys expired at the second 500.\<close>

definition stale_cache :: jwkCacheEntry where
  "stale_cache = \<lparr>jwk_keys = [(''k0'', CryptoKey 0)], jwk_expiry = 500\<rparr>"

definition stale_world :: world where
  "stale_world = demo_world\<lparr>jwkCache := Some stale_cache\<rparr>"





text \<open>Documents as the driver returns them.\<close>

definition form_doc :: document where
  "form_doc =
     [(''_id'', BObjectId ''64b7f0c2a1d3e4f5a6b7c8d9''),
      (''owner'', BObjectId ''64b7f0c2a1d3e4f5a6b7c8da''),
      (''slug'', BString ''xyz'')]"

definition counter_doc :: document where
  "counter_doc = [(''_id'', BNumber 7), (''slug'', BString ''abc'')]"

text \<open>
  Schedules of three calls: all of them arrive, the connection succeeds and the queries
  are answered; two of them arrive and the connection fails; the third call retries.
\<close>

definition arrivals3 :: "nat list" where
  "arrivals3 = [0, 1, 2]"

definition later_ok :: "step list" where
  "later_ok =
     [ConnectSettles 0 True, Run 0, Run 1, Run 2, Run 0, Run 1, Run 2,
      QuerySettles 0 (Some (Some form_doc)), QuerySettles 1 (Some None),
      QuerySettles 2 (Some (Some counter_doc))]"

definition sched_inflight :: "step list" where
  "sched_inflight = [Run 0, Run 1]"

definition sched_fail :: "step list" where
  "sched_fail = [Run 0, Run 1, ConnectSettles 0 False, Run 0, Run 1]"

definition sched_retry :: "step list" where
  "sched_retry =
     [Run 2, ConnectSettles 1 True, Run 2, Run 2, QuerySettles 2 (Some (Some form_doc))]"

section \<open>The key fetch is visible in the trace\<close>

lemma fetchGooglePublicKeys_traced:
  "\<exists>es. trace (snd (fetchGooglePublicKeys pf w)) = trace w @ GetPublicKeys # es"
  by (auto simp: fetchGooglePublicKeys_def Let_def effect_def
           split: option.splits jwks_reply.splits)

section \<open>Token verifier: the audience\<close>

text \<open>
  C3, as stated, fails: a token whose payload has another audience and whose header names
  the algorithm HS256 is rejected with \<open>invalid-algorithm\<close>, the code of the earlier
  stage, and not with \<open>invalid-audience\<close>.
\<close>

theorem verifyIdToken_audience_counterexample:
  "jwt_decode hs256_platform ''h.p.s'' = Decoded (Some hs256_header) (Some wrong_aud_payload)
   \<and> aud wrong_aud_payload \<noteq> Some (projectId demo_config)
   \<and> fst (verifyIdToken demo_config hs256_platform ''h.p.s'' False demo_world)
       = Inl (FirebaseAuthError ''invalid-algorithm'')"
  by (simp add: verifyIdToken_def checkClaims_def hs256_platform_def hs256_header_def
        wrong_aud_payload_def demo_platform_def demo_header_def demo_payload_def
        demo_config_def)

text \<open>
  C3, amended: a non-empty token that decodes to a header and a payload whose \<open>aud\<close> is
  not the configured project id is rejected, with \<open>invalid-audience\<close> when the header's
  algorithm is RS256 and it has a key id (and with the code of the header check that
  fails otherwise), and the state of the module with its trace is unchanged: the public
  keys have not been looked up and nothing has been fetched.
\<close>

theorem verifyIdToken_wrong_audience:
  assumes "idToken \<noteq> []"
      and "jwt_decode pf idToken = Decoded (Some header) (Some payload)"
      and "aud payload \<noteq> Some (projectId cfg)"
  shows "verifyIdToken cfg pf idToken checkRevoked w =
           (Inl (FirebaseAuthError
                  (if alg header \<noteq> Some ''RS256'' then ''invalid-algorithm''
                   else if \<not> truthy (kid header) then ''missing-kid''
                   else ''invalid-audience'')), w)"
  using assms by (simp add: verifyIdToken_def checkClaims_def)

theorem verifyIdToken_wrong_audience_witness:
  "''h.p.s'' \<noteq> []
   \<and> jwt_decode wrong_aud_platform ''h.p.s'' = Decoded (Some demo_header) (Some wrong_aud_payload)
   \<and> aud wrong_aud_payload \<noteq> Some (projectId demo_config)
   \<and> verifyIdToken demo_config wrong_aud_platform ''h.p.s'' True demo_world
       = (Inl (FirebaseAuthError ''invalid-audience''), demo_world)"
  using verifyIdToken_wrong_audience
          [of "''h.p.s''" wrong_aud_platform demo_header wrong_aud_payload demo_config
              True demo_world]
  by (simp add: wrong_aud_platform_def wrong_aud_payload_def demo_platform_def
        demo_header_def demo_payload_def demo_config_def truthy_def)

section \<open>Request gate: the status of a denied API request\<close>

lemma getToken_api_request: "getToken api_request = Some ''h.p.s''"
  by (simp add: getToken_def api_request_def)

lemma pathname_api_request: "pathname api_request = ''/api/forms/xyz''"
  by (simp add: api_request_def)

text \<open>
  No error of the verifier, run without the revocation check, has a code that the
  middleware maps to 401: a denied API request always gets 403.
\<close>

lemma checkClaims_status:
  "checkClaims cfg pf t False now = Inl e \<Longrightarrow> denyStatus e = 403"
  by (auto simp: checkClaims_def denyStatus_def
           split: if_splits decoded.splits option.splits)

lemma fetchGooglePublicKeys_status:
  "fetchGooglePublicKeys pf w = (Inl e, w') \<Longrightarrow> denyStatus e = 403"
  by (auto simp: fetchGooglePublicKeys_def denyStatus_def Let_def
           split: if_splits option.splits jwks_reply.splits)

lemma verifySignature_status:
  "verifySignature pf t header w = (Inl e, w') \<Longrightarrow> denyStatus e = 403"
  by (auto simp: verifySignature_def denyStatus_def
           dest: fetchGooglePublicKeys_status
           split: if_splits option.splits prod.splits sum.splits js_error.splits)

lemma verifyIdToken_status:
  "verifyIdToken cfg pf t False w = (Inl e, w') \<Longrightarrow> denyStatus e = 403"
  by (auto simp: verifyIdToken_def
           dest: checkClaims_status verifySignature_status
           split: prod.splits sum.splits)

lemma verifyRequest_status:
  "verifyRequest pf tok admin w = (Inl e, w') \<Longrightarrow> denyStatus e = 403"
  by (auto simp: verifyRequest_def denyStatus_def
           dest: verifyIdToken_status
           split: option.splits if_splits prod.splits sum.splits js_error.splits)

lemma middleware_invalid_token_403:
  assumes api: "startsWith (pathname req) ''/api''"
      and route: "pathname req \<notin> set excludedRoutes"
      and init: "initializeFirebaseAdmin penv (firebaseAdmin srv) = (True, admin)"
      and invalid: "verifyRequest pf (getToken req) admin (world srv) = (Inl e, w')"
  shows "status (fst (middleware penv pf req srv)) = 403"
proof -
  from api have "pathname req \<noteq> ''/auth/action''"
    by (auto simp: startsWith_def)
  with api route init invalid verifyRequest_status [OF invalid] show ?thesis
    by (simp add: middleware_def apiError_def new_Response_def)
qed

text \<open>
  C1: at the second 1000 a request for \<open>/api/forms/xyz\<close> bears a token whose \<open>exp\<close> is
  999. The verifier rejects it with the code \<open>token-expired\<close>; the middleware compares
  the code with \<open>id-token-expired\<close> and \<open>id-token-revoked\<close>, and answers 403.
\<close>

theorem middleware_expired_token_403:
  "exp expired_payload = Some 999 \<and> now_seconds demo_world = 1000
   \<and> fst (verifyIdToken demo_config expired_platform ''h.p.s'' False demo_world)
       = Inl (FirebaseAuthError ''token-expired'')
   \<and> status (fst (middleware demo_env expired_platform api_request demo_server)) = 403"
  by (simp add: middleware_def verifyRequest_def getToken_api_request verifyIdToken_def
        checkClaims_def expired_platform_def expired_payload_def demo_platform_def
        demo_header_def demo_payload_def demo_config_def demo_env_def demo_server_def
        demo_world_def now_seconds_def initializeFirebaseAdmin_def new_FirebaseAdmin_def
        truthy_def excludedRoutes_def pathname_api_request startsWith_def denyStatus_def
        apiError_def new_Response_def FIREBASE_ISSUER_def)

section \<open>Request gate: the security header\<close>

lemma csp_value: "contentSecurityPolicyHeaderValue = ''frame-ancestors 'self';''"
  by (simp add: contentSecurityPolicyHeaderValue_def cspHeader_def trim_def is_js_space_def)

lemma csp_res:
  "headers_get (headers_set ''Content-Security-Policy'' v NextResponse_next)
     ''Content-Security-Policy'' = Some v"
  by (simp add: headers_get_def headers_set_def NextResponse_next_def update_conv')

lemma csp_other:
  "name \<noteq> ''Content-Security-Policy'' \<Longrightarrow>
     headers_get (headers_set name v r) ''Content-Security-Policy''
       = headers_get r ''Content-Security-Policy''"
  by (simp add: headers_get_def headers_set_def update_conv')

lemma kind_headers_set: "kind (headers_set name v r) = kind r"
  by (simp add: headers_set_def)

lemma csp_fresh:
  "headers_get NextResponse_next ''Content-Security-Policy'' = None"
  "headers_get (redirect req p) ''Content-Security-Policy'' = None"
  "headers_get (apiError st) ''Content-Security-Policy'' = None"
  "headers_get (NextResponse_json st) ''Content-Security-Policy'' = None"
  by (simp_all add: headers_get_def NextResponse_next_def redirect_def
        NextResponse_redirect_def apiError_def new_Response_def NextResponse_json_def)

lemma kind_fresh:
  "kind NextResponse_next = Next" "kind (redirect req p) = Redirect p"
  "kind (apiError st) = ErrorBody" "kind (NextResponse_json st) = ErrorBody"
  by (simp_all add: NextResponse_next_def redirect_def
        NextResponse_redirect_def apiError_def new_Response_def NextResponse_json_def)

text \<open>On the callback route no response carries the header, also the one that passes.\<close>

lemma middleware_auth_action_no_csp:
  assumes "pathname req = ''/auth/action''"
  shows "headers_get (fst (middleware penv pf req srv)) ''Content-Security-Policy'' = None"
  using assms
  by (simp add: middleware_def excludedRoutes_def csp_fresh)

text \<open>
  C5, as stated, fails: a request for the page \<open>/dashboard\<close> without a token is
  redirected to \<open>/login\<close>, and the redirect does not carry the header.
\<close>

theorem middleware_csp_counterexample:
  "kind (fst (middleware demo_env demo_platform page_request demo_server)) = Redirect ''/login''
   \<and> headers_get (fst (middleware demo_env demo_platform page_request demo_server))
        ''Content-Security-Policy'' = None"
  by (simp add: middleware_def verifyRequest_def getToken_def page_request_def
        demo_env_def demo_server_def initializeFirebaseAdmin_def new_FirebaseAdmin_def
        truthy_def excludedRoutes_def authRoutes_def startsWith_def csp_fresh kind_fresh)

text \<open>
  C5, amended: on every route but the callback route \<open>/auth/action\<close>, the response of
  the middleware carries the header \<open>Content-Security-Policy: frame-ancestors 'self';\<close>
  exactly when it lets the request pass; a redirect and an error response do not carry it.
\<close>

theorem middleware_csp:
  assumes "pathname req \<noteq> ''/auth/action''"
  shows "headers_get (fst (middleware penv pf req srv)) ''Content-Security-Policy'' =
           (if kind (fst (middleware penv pf req srv)) = Next
            then Some ''frame-ancestors 'self';'' else None)"
  using assms unfolding middleware_def Let_def
  by (simp add: csp_value csp_res csp_other kind_headers_set csp_fresh kind_fresh
           split: prod.splits sum.splits option.splits)

theorem middleware_csp_witness:
  "pathname api_request \<noteq> ''/auth/action''
   \<and> kind (fst (middleware demo_env demo_platform api_request demo_server)) = Next
   \<and> headers_get (fst (middleware demo_env demo_platform api_request demo_server))
        ''Content-Security-Policy'' = Some ''frame-ancestors 'self';''"
proof -
  have route: "pathname api_request \<noteq> ''/auth/action''"
    by (simp add: api_request_def)
  have allowed: "kind (fst (middleware demo_env demo_platform api_request demo_server)) = Next"
    by (simp add: middleware_def verifyRequest_def getToken_api_request verifyIdToken_def
          checkClaims_def verifySignature_def fetchGooglePublicKeys_def cachedKeys_def
          effect_def malformed_jwk_def maxAgeOf_def signaturePartOf_def dataPartOf_def
          demo_platform_def demo_header_def demo_payload_def demo_jwk_def
          demo_config_def demo_env_def demo_server_def demo_world_def now_seconds_def
          initializeFirebaseAdmin_def new_FirebaseAdmin_def truthy_def excludedRoutes_def
          pathname_api_request startsWith_def FIREBASE_ISSUER_def kind_headers_set
          kind_fresh)
  from middleware_csp [OF route, of demo_env demo_platform demo_server] allowed route
  show ?thesis by simp
qed

section \<open>Custom claims\<close>









section \<open>Token verifier: the revocation check\<close>

lemma demo_checkClaims:
  "checkClaims demo_config (platform_with_admin r) ''h.p.s'' True (now_seconds demo_world)
     = Inr (demo_header, demo_payload)"
  by (simp add: checkClaims_def platform_with_admin_def demo_platform_def demo_header_def
        demo_payload_def demo_config_def demo_world_def now_seconds_def truthy_def
        FIREBASE_ISSUER_def)

lemma demo_maxAge: "maxAgeOf (Some ''public, max-age=19000, must-revalidate'') = 19000"
  by (simp add: maxAgeOf_def is_digit_def digits_value_def digit_value_def)

lemma demo_verifySignature:
  "verifySignature (platform_with_admin r) ''h.p.s'' demo_header demo_world
     = (Inr (), keys_world)"
  by (simp add: verifySignature_def fetchGooglePublicKeys_def cachedKeys_def effect_def
        malformed_jwk_def demo_maxAge signaturePartOf_def dataPartOf_def
        platform_with_admin_def demo_platform_def demo_header_def demo_jwk_def
        demo_world_def keys_world_def now_seconds_def truthy_def)

lemma demo_lookup:
  "makeFirebaseAdminApiRequest demo_config (platform_with_admin r) ''accounts:lookup'' body
     keys_world
     = (case r of
          AdminNetworkFailure \<Rightarrow> Inl OtherError
        | AdminNotOk d \<Rightarrow> Inl (FirebaseAuthError d)
        | AdminOk isJson parsed \<Rightarrow>
            if isJson then (case parsed of None \<Rightarrow> Inl OtherError | Some us \<Rightarrow> Inr us)
            else Inr None, lookup_world)"
  by (simp add: makeFirebaseAdminApiRequest_def fetchAccessToken_def cachedAccessToken_def
        createSignedJwt_def effect_def platform_with_admin_def demo_platform_def
        demo_config_def keys_world_def lookup_world_def now_seconds_def
        IDENTITY_TOOLKIT_URL_def Let_def
        split: admin_reply.splits option.splits)

lemma demo_getUserRecord:
  "getUserRecord demo_config (platform_with_admin (users_reply us)) userId keys_world
     = (case us of [] \<Rightarrow> None | u # rest \<Rightarrow> Some u, lookup_world)"
  by (simp add: getUserRecord_def demo_lookup users_reply_def split: list.splits)

lemma parseInt_examples:
  "parseInt [] = None" "parseInt ''soon'' = None" "parseInt ''950'' = Some 950"
  "parseInt ''900'' = Some 900" "parseInt ([CHR 0xC2, CHR 0xA0] @ ''950'') = Some 950"
  by (simp_all add: parseInt_def parseDigits_def StrWhiteSpaceChar_def is_digit_def
        digits_value_def digit_value_def)

text \<open>
  The revocation check, case by case. When the claims and the signature of a token have
  passed with revocation checking on, and the user has been looked up: if no record was
  found, the call fails with \<open>user-not-found\<close>; if the record has no
  \<open>tokensValidAfterTime\<close>, or the empty string, the call returns the payload; if it
  has a non-empty one that \<open>parseInt\<close> does not parse, the call fails with
  \<open>invalid-revocation-format\<close>; and if \<open>parseInt\<close> parses it, the call fails with
  \<open>id-token-revoked\<close> exactly when the token's \<open>auth_time\<close> is less than the parsed
  value, and returns the payload otherwise.
\<close>

lemma verifyIdToken_revocation_cases:
  assumes claims: "checkClaims cfg pf idToken True (now_seconds w) = Inr (header, payload)"
      and signature: "verifySignature pf idToken header w = (Inr (), w1)"
      and lookup: "getUserRecord cfg pf (sub payload) w1 = (found, w2)"
  shows "(found = None \<longrightarrow>
            fst (verifyIdToken cfg pf idToken True w)
              = Inl (FirebaseAuthError ''user-not-found''))
       \<and> (\<forall>r. found = Some r
                  \<and> (tokensValidAfterTime r = None \<or> tokensValidAfterTime r = Some []) \<longrightarrow>
            fst (verifyIdToken cfg pf idToken True w) = Inr (payload\<lparr>uid := sub payload\<rparr>))
       \<and> (\<forall>r tv. found = Some r \<and> tokensValidAfterTime r = Some tv \<and> tv \<noteq> []
                  \<and> parseInt tv = None \<longrightarrow>
            fst (verifyIdToken cfg pf idToken True w)
              = Inl (FirebaseAuthError ''invalid-revocation-format''))
       \<and> (\<forall>r tv validSince. found = Some r \<and> tokensValidAfterTime r = Some tv \<and> tv \<noteq> []
                  \<and> parseInt tv = Some validSince \<longrightarrow>
            (\<exists>authTime. auth_time payload = Some authTime
               \<and> (fst (verifyIdToken cfg pf idToken True w)
                    = Inl (FirebaseAuthError ''id-token-revoked'')) = (authTime < validSince)
               \<and> (\<not> authTime < validSince \<longrightarrow>
                    fst (verifyIdToken cfg pf idToken True w)
                      = Inr (payload\<lparr>uid := sub payload\<rparr>))))"
proof -
  have at: "auth_time payload \<noteq> None"
    using claims by (auto simp: checkClaims_def split: if_splits decoded.splits option.splits)
  show ?thesis
    using at claims signature lookup
    by (auto simp: verifyIdToken_def checkRevocation_def)
qed

text \<open>
  C2: with revocation checking on, a token that passes the claim checks and the
  signature check, for a user whose record carries a \<open>tokensValidAfterTime\<close> that does
  not parse as a number, is to be rejected with \<open>invalid-revocation-format\<close>. The code
  does so for the value \<open>soon\<close>, but not for the empty string: \<open>parseInt\<close> gives
  \<open>NaN\<close> for it as well, yet the truthiness test of line 507 skips the check and the
  call returns the payload.
\<close>

theorem verifyIdToken_revocation_fails_open:
  "tokensValidAfterTime (user_valid_after ''soon'') = Some ''soon''
   \<and> parseInt ''soon'' = None
   \<and> fst (verifyIdToken demo_config
            (platform_with_admin (users_reply [user_valid_after ''soon''])) ''h.p.s'' True
            demo_world)
       = Inl (FirebaseAuthError ''invalid-revocation-format'')
   \<and> tokensValidAfterTime (user_valid_after []) = Some []
   \<and> parseInt [] = None
   \<and> fst (verifyIdToken demo_config (platform_with_admin (users_reply [user_valid_after []]))
            ''h.p.s'' True demo_world)
       = Inr (demo_payload\<lparr>uid := sub demo_payload\<rparr>)"
  by (simp add: verifyIdToken_def demo_checkClaims demo_verifySignature checkRevocation_def
        demo_getUserRecord user_valid_after_def parseInt_examples)

text \<open>
  C10: when the claims and the signature of a token have passed with revocation checking
  on, and the lookup request of the Admin API fails with any error (a failed fetch of
  the access token or of the end point, a response that is not \<open>ok\<close>, a body that does
  not parse) or its answer has no user, the call fails with \<open>user-not-found\<close>.
\<close>

theorem verifyIdToken_lookup_failure:
  assumes claims: "checkClaims cfg pf idToken True (now_seconds w) = Inr (header, payload)"
      and signature: "verifySignature pf idToken header w = (Inr (), w1)"
      and lookup: "makeFirebaseAdminApiRequest cfg pf ''accounts:lookup''
                     (JObject [(''localId'', JArray [json_of_string_option (sub payload)])]) w1
                   = (answer, w2)"
      and failure: "(\<exists>e. answer = Inl e) \<or> answer = Inr None \<or> answer = Inr (Some [])"
  shows "verifyIdToken cfg pf idToken True w = (Inl (FirebaseAuthError ''user-not-found''), w2)"
  using assms
  by (auto simp: verifyIdToken_def checkRevocation_def getUserRecord_def)

theorem verifyIdToken_lookup_failure_witness:
  "verifyIdToken demo_config (platform_with_admin AdminNetworkFailure) ''h.p.s'' True demo_world
     = (Inl (FirebaseAuthError ''user-not-found''), lookup_world)
   \<and> verifyIdToken demo_config (platform_with_admin (AdminNotOk ''{}'')) ''h.p.s'' True
       demo_world
     = (Inl (FirebaseAuthError ''user-not-found''), lookup_world)
   \<and> verifyIdToken demo_config (platform_with_admin (users_reply [])) ''h.p.s'' True demo_world
     = (Inl (FirebaseAuthError ''user-not-found''), lookup_world)"
proof -
  note network = verifyIdToken_lookup_failure
    [OF demo_checkClaims demo_verifySignature demo_lookup, of AdminNetworkFailure]
  note status = verifyIdToken_lookup_failure
    [OF demo_checkClaims demo_verifySignature demo_lookup, of "AdminNotOk ''{}''"]
  note nobody = verifyIdToken_lookup_failure
    [OF demo_checkClaims demo_verifySignature demo_lookup, of "users_reply []"]
  from network status nobody show ?thesis
    by (simp add: users_reply_def)
qed

section \<open>Key cache: all or nothing\<close>

text \<open>On the digits that the pattern captures, \<open>parseInt\<close> gives \<open>max-age\<close>.\<close>

lemma leading_space_head:
  "\<forall>sp \<in> set sps. sp \<noteq> [] \<and> hd sp \<noteq> c \<Longrightarrow> leading_space sps (c # cs) = 0"
proof (induction sps)
  case Nil
  then show ?case by simp
next
  case (Cons sp sps)
  then have "sp \<noteq> []" and "hd sp \<noteq> c" by simp_all
  then have "take (length sp) (c # cs) \<noteq> sp"
    by (cases sp) auto
  with Cons show ?case by simp
qed

lemma digit_no_space:
  assumes "is_digit c"
  shows "skip_white_space (c # cs) = c # cs"
proof -
  from assms have "\<forall>sp \<in> set StrWhiteSpaceChar. sp \<noteq> [] \<and> hd sp \<noteq> c"
    by (auto simp: is_digit_def StrWhiteSpaceChar_def)
  then have "leading_space StrWhiteSpaceChar (c # cs) = 0"
    by (rule leading_space_head)
  then show ?thesis by simp
qed

lemma digit_no_sign: "is_digit c \<Longrightarrow> c \<noteq> CHR ''-'' \<and> c \<noteq> CHR ''+''"
  by (auto simp: is_digit_def)

lemma parseInt_digits:
  assumes "ds \<noteq> []" and "\<forall>c \<in> set ds. is_digit c"
  shows "parseInt ds = Some (int (digits_value ds))"
proof -
  from assms obtain d rest where ds: "ds = d # rest" and d: "is_digit d"
    by (cases ds) auto
  from d have dw: "skip_white_space ds = ds"
    unfolding ds by (rule digit_no_space)
  from d have first: "hd ds \<noteq> CHR ''-''" "hd ds \<noteq> CHR ''+''"
    unfolding ds using digit_no_sign by simp_all
  from assms(2) have tw: "takeWhile is_digit ds = ds"
    by (simp add: takeWhile_eq_all_conv)
  show ?thesis
    unfolding parseInt_def parseDigits_def Let_def dw tw
    using assms(1) first by simp
qed

lemma maxAgeMatch_digits:
  "maxAgeMatch cc = Some ds \<Longrightarrow> ds \<noteq> [] \<and> (\<forall>c \<in> set ds. is_digit c)"
proof (induction cc rule: maxAgeMatch.induct)
  case 1
  then show ?case by simp
next
  case (2 c cs)
  then show ?case
    by (auto split: if_splits dest: set_takeWhileD)
qed

lemma maxAgeOf_parseInt:
  "maxAgeMatch cc = Some ds \<Longrightarrow> parseInt ds = Some (maxAgeOf (Some cc))"
  using maxAgeMatch_digits [of cc ds] parseInt_digits [of ds]
  by (simp add: maxAgeOf_def)

text \<open>
  The pattern on a header, without the function that searches it: a header in which
  \<open>max-age=\<close> is nowhere followed by a digit has no match, and the match is at the
  leftmost such place.
\<close>

lemma match_here:
  assumes "take 8 s = ''max-age=''" and "takeWhile is_digit (drop 8 s) \<noteq> []"
  shows "\<exists>c post. s = ''max-age='' @ c # post \<and> is_digit c"
proof -
  from assms(2) obtain c post where rest: "drop 8 s = c # post" and c: "is_digit c"
    by (cases "drop 8 s") (auto split: if_splits)
  have "s = take 8 s @ drop 8 s" by simp
  with assms(1) rest have "s = ''max-age='' @ c # post" by simp
  with c show ?thesis by blast
qed

lemma maxAgeMatch_none:
  "\<not> (\<exists>pre c post. cc = pre @ ''max-age='' @ c # post \<and> is_digit c) \<Longrightarrow>
     maxAgeMatch cc = None"
proof (induction cc)
  case Nil
  then show ?case by simp
next
  case (Cons x xs)
  have here: "\<not> (take 8 (x # xs) = ''max-age='' \<and> takeWhile is_digit (drop 8 (x # xs)) \<noteq> [])"
  proof
    assume "take 8 (x # xs) = ''max-age='' \<and> takeWhile is_digit (drop 8 (x # xs)) \<noteq> []"
    then obtain c post where "x # xs = [] @ ''max-age='' @ c # post" and "is_digit c"
      using match_here [of "x # xs"] by auto
    with Cons.prems show False by blast
  qed
  have later: "\<not> (\<exists>pre c post. xs = pre @ ''max-age='' @ c # post \<and> is_digit c)"
  proof
    assume "\<exists>pre c post. xs = pre @ ''max-age='' @ c # post \<and> is_digit c"
    then obtain pre c post where "xs = pre @ ''max-age='' @ c # post" and c: "is_digit c"
      by blast
    then have "x # xs = (x # pre) @ ''max-age='' @ c # post" by simp
    with c Cons.prems show False by blast
  qed
  have "maxAgeMatch (x # xs) = maxAgeMatch xs"
    by (simp only: maxAgeMatch.simps here if_False)
  with Cons.IH [OF later] show ?case by simp
qed

lemma maxAgeMatch_leftmost:
  assumes "ds \<noteq> []" and "\<forall>c \<in> set ds. is_digit c"
      and "post = [] \<or> \<not> is_digit (hd post)"
      and "\<forall>pre' c post'. pre @ ''max-age='' @ ds @ post = pre' @ ''max-age='' @ c # post'
                             \<and> is_digit c \<longrightarrow> length pre \<le> length pre'"
  shows "maxAgeMatch (pre @ ''max-age='' @ ds @ post) = Some ds"
  using assms(4)
proof (induction pre)
  case Nil
  from assms(3) have "takeWhile is_digit post = []"
    by (cases post) auto
  with assms(2) have "takeWhile is_digit (ds @ post) = ds"
    by (simp add: takeWhile_append2)
  with assms(1) show ?case by simp
next
  case (Cons x xs)
  let ?s = "xs @ ''max-age='' @ ds @ post"
  have here: "\<not> (take 8 (x # ?s) = ''max-age='' \<and> takeWhile is_digit (drop 8 (x # ?s)) \<noteq> [])"
  proof
    assume "take 8 (x # ?s) = ''max-age='' \<and> takeWhile is_digit (drop 8 (x # ?s)) \<noteq> []"
    then obtain c post' where "x # ?s = [] @ ''max-age='' @ c # post'" and "is_digit c"
      using match_here [of "x # ?s"] by auto
    with Cons.prems have "length (x # xs) \<le> length ([] :: string)"
      by (metis append_Cons)
    then show False by simp
  qed
  have "\<forall>pre' c post'. ?s = pre' @ ''max-age='' @ c # post' \<and> is_digit c
          \<longrightarrow> length xs \<le> length pre'"
  proof (intro allI impI)
    fix pre' c post'
    assume "?s = pre' @ ''max-age='' @ c # post' \<and> is_digit c"
    then have "(x # xs) @ ''max-age='' @ ds @ post = (x # pre') @ ''max-age='' @ c # post'"
      and "is_digit c"
      by simp_all
    with Cons.prems have "length (x # xs) \<le> length (x # pre')" by blast
    then show "length xs \<le> length pre'" by simp
  qed
  from Cons.IH [OF this] have later: "maxAgeMatch ?s = Some ds" .
  have "maxAgeMatch (x # ?s) = maxAgeMatch ?s"
    by (simp only: maxAgeMatch.simps here if_False)
  with later show ?case by simp
qed

lemma leftmost_without_m:
  assumes "CHR ''m'' \<notin> set pre" and "pre @ t = pre' @ ''max-age='' @ u"
  shows "length pre \<le> length pre'"
proof (rule ccontr)
  assume "\<not> length pre \<le> length pre'"
  then have shorter: "length pre' < length pre" by simp
  then have "(pre @ t) ! length pre' = pre ! length pre'"
    by (simp add: nth_append)
  moreover have "(pre' @ ''max-age='' @ u) ! length pre' = CHR ''m''"
    by (simp add: nth_append)
  ultimately have "pre ! length pre' = CHR ''m''"
    using assms(2) by simp
  with shorter have "CHR ''m'' \<in> set pre"
    by (metis nth_mem)
  with assms(1) show False by simp
qed

lemma now_seconds_trace: "now_seconds (w\<lparr>trace := t\<rparr>) = now_seconds w"
  by (simp add: now_seconds_def)

lemma cachedKeys_trace: "cachedKeys (w\<lparr>trace := t\<rparr>) = cachedKeys w"
  by (simp add: cachedKeys_def now_seconds_trace split: option.splits)

lemma cachedKeys_miss:
  "(cachedKeys w = None) = (\<forall>c. jwkCache w = Some c \<longrightarrow> jwk_expiry c \<le> clock w div 1000)"
  by (auto simp: cachedKeys_def now_seconds_def split: option.splits)

lemma length_update_le: "length al \<le> length (AList.update k v al)"
  by (induction al) auto

lemma importAll_grows: "importAll pf ks m = Some km \<Longrightarrow> length m \<le> length km"
proof (induction ks arbitrary: m)
  case Nil
  then show ?case by simp
next
  case (Cons k ks)
  from Cons.prems obtain keyId key where
    k: "jwk_kid k = Some keyId" "importKey pf k = Some key"
    and rest: "importAll pf ks (AList.update keyId key m) = Some km"
    by (auto split: option.splits)
  have "length m \<le> length (AList.update keyId key m)"
    by (rule length_update_le)
  with Cons.IH [OF rest] show ?case by simp
qed

lemma importAll_nonempty:
  assumes "importAll pf ks [] = Some km" and "ks \<noteq> []"
  shows "km \<noteq> []"
proof -
  from assms obtain k ks' where ks: "ks = k # ks'" by (cases ks) auto
  with assms obtain keyId key where
    rest: "importAll pf ks' (AList.update keyId key []) = Some km"
    by (auto split: option.splits)
  from importAll_grows [OF rest] show ?thesis by auto
qed

lemma importAll_succeeds:
  "\<not> list_ex (\<lambda>k. malformed_jwk k \<or> importKey pf k = None) ks \<Longrightarrow>
     \<exists>km. importAll pf ks m = Some km"
proof (induction ks arbitrary: m)
  case Nil
  then show ?case by simp
next
  case (Cons k ks)
  then obtain keyId key where "jwk_kid k = Some keyId" "importKey pf k = Some key"
    by (auto simp: malformed_jwk_def truthy_def split: option.splits)
  with Cons show ?case by simp
qed

lemma importAll_fails:
  "list_ex (\<lambda>k. importKey pf k = None) ks \<Longrightarrow> importAll pf ks m = None"
  by (induction ks arbitrary: m) (auto split: option.splits)

lemma malformed_jwk_fields:
  "malformed_jwk k =
     (jwk_kty k \<noteq> Some ''RSA''
      \<or> jwk_alg k = None \<or> jwk_alg k = Some []
      \<or> jwk_kid k = None \<or> jwk_kid k = Some []
      \<or> jwk_n k = None \<or> jwk_n k = Some []
      \<or> jwk_e k = None \<or> jwk_e k = Some [])"
proof -
  have t: "\<And>v. (\<not> truthy v) = (v = None \<or> v = Some [])"
    by (simp add: truthy_def split: option.splits)
  show ?thesis
    unfolding malformed_jwk_def t by blast
qed

text \<open>What the map of the imported keys holds: every key of the set, under its \<open>kid\<close>.\<close>

lemma importAll_keeps:
  "importAll pf ks m = Some km \<Longrightarrow> map_of m keyId \<noteq> None \<Longrightarrow> map_of km keyId \<noteq> None"
proof (induction ks arbitrary: m)
  case Nil
  then show ?case by simp
next
  case (Cons k ks)
  from Cons.prems(1) obtain kid' key where
    rest: "importAll pf ks (AList.update kid' key m) = Some km"
    by (auto split: option.splits)
  from Cons.prems(2) have "map_of (AList.update kid' key m) keyId \<noteq> None"
    by (simp add: update_conv')
  from Cons.IH [OF rest this] show ?case .
qed

lemma importAll_holds:
  "importAll pf ks m = Some km \<Longrightarrow> k \<in> set ks \<Longrightarrow>
     \<exists>keyId. jwk_kid k = Some keyId \<and> map_of km keyId \<noteq> None"
proof (induction ks arbitrary: m)
  case Nil
  then show ?case by simp
next
  case (Cons k' ks)
  from Cons.prems(1) obtain kid' key where
    k': "jwk_kid k' = Some kid'" "importKey pf k' = Some key"
    and rest: "importAll pf ks (AList.update kid' key m) = Some km"
    by (auto split: option.splits)
  show ?case
  proof (cases "k \<in> set ks")
    case True
    from Cons.IH [OF rest True] show ?thesis .
  next
    case False
    with Cons.prems(2) have "k = k'" by simp
    moreover have "map_of (AList.update kid' key m) kid' \<noteq> None"
      by (simp add: update_conv')
    from importAll_keeps [OF rest this] have "map_of km kid' \<noteq> None" .
    ultimately show ?thesis using k'(1) by simp
  qed
qed

lemma importAll_origin:
  "importAll pf ks m = Some km \<Longrightarrow> map_of km keyId = Some key \<Longrightarrow>
     map_of m keyId = Some key
     \<or> (\<exists>k \<in> set ks. jwk_kid k = Some keyId \<and> importKey pf k = Some key)"
proof (induction ks arbitrary: m)
  case Nil
  then show ?case by simp
next
  case (Cons k' ks)
  from Cons.prems(1) obtain kid' key' where
    k': "jwk_kid k' = Some kid'" "importKey pf k' = Some key'"
    and rest: "importAll pf ks (AList.update kid' key' m) = Some km"
    by (auto split: option.splits)
  from Cons.IH [OF rest Cons.prems(2)]
  show ?case
  proof
    assume "map_of (AList.update kid' key' m) keyId = Some key"
    with k' show ?thesis
      by (auto simp: update_conv' split: if_splits)
  next
    assume "\<exists>k \<in> set ks. jwk_kid k = Some keyId \<and> importKey pf k = Some key"
    then show ?thesis by auto
  qed
qed

text \<open>
  C4: when the cache has no fresh entry and the key end point answers with a key set:
  if a key of the set is malformed or its import throws, the call fails and the cache
  entry is the one it was; if the set is empty, the call fails with \<open>no-valid-jwks\<close> and
  the cache entry is the one it was; otherwise the call returns a map that holds every
  key of the set under its \<open>kid\<close>, and nothing but the imports of these keys, and the
  cache entry is this map with the expiry \<open>now + max-age\<close>. Here \<open>max-age\<close> is 3600
  when there is no \<open>cache-control\<close> header or when \<open>max-age=\<close> is nowhere followed by
  a digit in it, and otherwise the decimal value of the digits that follow the leftmost
  such \<open>max-age=\<close>.
\<close>

theorem fetchGooglePublicKeys_all_or_nothing:
  assumes miss: "\<forall>c. jwkCache w = Some c \<longrightarrow> jwk_expiry c \<le> clock w div 1000"
      and reply: "jwks_reply pf = JwksReply True cacheControl (Some ks)"
  shows "((\<exists>k \<in> set ks. jwk_kty k \<noteq> Some ''RSA''
                       \<or> jwk_alg k = None \<or> jwk_alg k = Some []
                       \<or> jwk_kid k = None \<or> jwk_kid k = Some []
                       \<or> jwk_n k = None \<or> jwk_n k = Some []
                       \<or> jwk_e k = None \<or> jwk_e k = Some []
                       \<or> importKey pf k = None) \<longrightarrow>
            (\<exists>e. fst (fetchGooglePublicKeys pf w) = Inl e)
            \<and> jwkCache (snd (fetchGooglePublicKeys pf w)) = jwkCache w)
       \<and> (ks = [] \<longrightarrow>
            fst (fetchGooglePublicKeys pf w) = Inl (FirebaseAuthError ''no-valid-jwks'')
            \<and> jwkCache (snd (fetchGooglePublicKeys pf w)) = jwkCache w)
       \<and> (ks \<noteq> []
          \<and> (\<forall>k \<in> set ks. jwk_kty k = Some ''RSA''
                       \<and> jwk_alg k \<noteq> None \<and> jwk_alg k \<noteq> Some []
                       \<and> jwk_kid k \<noteq> None \<and> jwk_kid k \<noteq> Some []
                       \<and> jwk_n k \<noteq> None \<and> jwk_n k \<noteq> Some []
                       \<and> jwk_e k \<noteq> None \<and> jwk_e k \<noteq> Some []
                       \<and> importKey pf k \<noteq> None) \<longrightarrow>
            (\<exists>keyMap maxAge.
               fst (fetchGooglePublicKeys pf w) = Inr keyMap
               \<and> jwkCache (snd (fetchGooglePublicKeys pf w))
                   = Some \<lparr>jwk_keys = keyMap, jwk_expiry = clock w div 1000 + maxAge\<rparr>
               \<and> (\<forall>k \<in> set ks. \<exists>keyId. jwk_kid k = Some keyId \<and> map_of keyMap keyId \<noteq> None)
               \<and> (\<forall>keyId key. map_of keyMap keyId = Some key \<longrightarrow>
                     (\<exists>k \<in> set ks. jwk_kid k = Some keyId \<and> importKey pf k = Some key))
               \<and> (cacheControl = None \<longrightarrow> maxAge = 3600)
               \<and> (\<forall>cc. cacheControl = Some cc
                        \<and> \<not> (\<exists>pre c post. cc = pre @ ''max-age='' @ c # post
                                           \<and> c \<in> set ''0123456789'') \<longrightarrow>
                     maxAge = 3600)
               \<and> (\<forall>pre ds post.
                     cacheControl = Some (pre @ ''max-age='' @ ds @ post)
                     \<and> ds \<noteq> [] \<and> set ds \<subseteq> set ''0123456789''
                     \<and> (post = [] \<or> hd post \<notin> set ''0123456789'')
                     \<and> (\<forall>pre' c post'.
                           pre @ ''max-age='' @ ds @ post = pre' @ ''max-age='' @ c # post'
                           \<and> c \<in> set ''0123456789'' \<longrightarrow> length pre \<le> length pre') \<longrightarrow>
                     maxAge = int (foldl (\<lambda>a c. 10 * a + (of_char c - 48)) 0 ds))))"
proof (intro conjI impI)
  from miss have miss': "cachedKeys w = None"
    by (simp add: cachedKeys_miss)
  assume "\<exists>k \<in> set ks. jwk_kty k \<noteq> Some ''RSA''
                       \<or> jwk_alg k = None \<or> jwk_alg k = Some []
                       \<or> jwk_kid k = None \<or> jwk_kid k = Some []
                       \<or> jwk_n k = None \<or> jwk_n k = Some []
                       \<or> jwk_e k = None \<or> jwk_e k = Some []
                       \<or> importKey pf k = None"
  then have bad: "list_ex (\<lambda>k. malformed_jwk k \<or> importKey pf k = None) ks"
    unfolding list_ex_iff malformed_jwk_fields by blast
  show "\<exists>e. fst (fetchGooglePublicKeys pf w) = Inl e"
  proof (cases "list_ex malformed_jwk ks")
    case True
    with miss' reply show ?thesis
      by (simp add: fetchGooglePublicKeys_def cachedKeys_trace Let_def)
  next
    case False
    with bad have "list_ex (\<lambda>k. importKey pf k = None) ks"
      by (auto simp: list_ex_iff)
    then have "importAll pf ks [] = None" by (rule importAll_fails)
    with False miss' reply show ?thesis
      by (simp add: fetchGooglePublicKeys_def cachedKeys_trace Let_def)
  qed
  show "jwkCache (snd (fetchGooglePublicKeys pf w)) = jwkCache w"
  proof (cases "list_ex malformed_jwk ks")
    case True
    with miss' reply show ?thesis
      by (simp add: fetchGooglePublicKeys_def cachedKeys_trace Let_def effect_def)
  next
    case False
    with bad have "list_ex (\<lambda>k. importKey pf k = None) ks"
      by (auto simp: list_ex_iff)
    then have "importAll pf ks [] = None" by (rule importAll_fails)
    with False miss' reply show ?thesis
      by (simp add: fetchGooglePublicKeys_def cachedKeys_trace Let_def effect_def)
  qed
next
  from miss have miss': "cachedKeys w = None"
    by (simp add: cachedKeys_miss)
  assume "ks = []"
  with miss' reply
  show "fst (fetchGooglePublicKeys pf w) = Inl (FirebaseAuthError ''no-valid-jwks'')"
    and "jwkCache (snd (fetchGooglePublicKeys pf w)) = jwkCache w"
    by (simp_all add: fetchGooglePublicKeys_def cachedKeys_trace Let_def effect_def)
next
  from miss have miss': "cachedKeys w = None"
    by (simp add: cachedKeys_miss)
  assume good: "ks \<noteq> []
          \<and> (\<forall>k \<in> set ks. jwk_kty k = Some ''RSA''
                       \<and> jwk_alg k \<noteq> None \<and> jwk_alg k \<noteq> Some []
                       \<and> jwk_kid k \<noteq> None \<and> jwk_kid k \<noteq> Some []
                       \<and> jwk_n k \<noteq> None \<and> jwk_n k \<noteq> Some []
                       \<and> jwk_e k \<noteq> None \<and> jwk_e k \<noteq> Some []
                       \<and> importKey pf k \<noteq> None)"
  then have ok: "\<not> list_ex (\<lambda>k. malformed_jwk k \<or> importKey pf k = None) ks"
    unfolding list_ex_iff malformed_jwk_fields by blast
  then obtain km where km: "importAll pf ks [] = Some km"
    using importAll_succeeds by blast
  with good have ne: "km \<noteq> []" using importAll_nonempty by blast
  from ok have wf: "\<not> list_ex malformed_jwk ks" by (auto simp: list_ex_iff)
  from miss' reply km ne wf
  have result: "fst (fetchGooglePublicKeys pf w) = Inr km"
    and entry: "jwkCache (snd (fetchGooglePublicKeys pf w))
                  = Some \<lparr>jwk_keys = km, jwk_expiry = clock w div 1000 + maxAgeOf cacheControl\<rparr>"
    by (simp_all add: fetchGooglePublicKeys_def cachedKeys_trace now_seconds_trace Let_def
          effect_def now_seconds_def)
  have holds: "\<forall>k \<in> set ks. \<exists>keyId. jwk_kid k = Some keyId \<and> map_of km keyId \<noteq> None"
    using importAll_holds [OF km] by blast
  have origin: "\<forall>keyId key. map_of km keyId = Some key \<longrightarrow>
                  (\<exists>k \<in> set ks. jwk_kid k = Some keyId \<and> importKey pf k = Some key)"
    using importAll_origin [OF km] by auto
  have absent: "cacheControl = None \<longrightarrow> maxAgeOf cacheControl = 3600"
    by (simp add: maxAgeOf_def)
  have nomatch: "\<forall>cc. cacheControl = Some cc
                   \<and> \<not> (\<exists>pre c post. cc = pre @ ''max-age='' @ c # post
                                      \<and> c \<in> set ''0123456789'') \<longrightarrow>
                   maxAgeOf cacheControl = 3600"
  proof (intro allI impI)
    fix cc
    assume cc: "cacheControl = Some cc
                \<and> \<not> (\<exists>pre c post. cc = pre @ ''max-age='' @ c # post
                                   \<and> c \<in> set ''0123456789'')"
    then have "\<not> (\<exists>pre c post. cc = pre @ ''max-age='' @ c # post \<and> is_digit c)"
      unfolding is_digit_def by blast
    then have "maxAgeMatch cc = None" by (rule maxAgeMatch_none)
    with cc show "maxAgeOf cacheControl = 3600" by (simp add: maxAgeOf_def)
  qed
  have match: "\<forall>pre ds post.
                 cacheControl = Some (pre @ ''max-age='' @ ds @ post)
                 \<and> ds \<noteq> [] \<and> set ds \<subseteq> set ''0123456789''
                 \<and> (post = [] \<or> hd post \<notin> set ''0123456789'')
                 \<and> (\<forall>pre' c post'.
                       pre @ ''max-age='' @ ds @ post = pre' @ ''max-age='' @ c # post'
                       \<and> c \<in> set ''0123456789'' \<longrightarrow> length pre \<le> length pre') \<longrightarrow>
                 maxAgeOf cacheControl = int (foldl (\<lambda>a c. 10 * a + (of_char c - 48)) 0 ds)"
  proof (intro allI impI)
    fix pre ds post
    assume h: "cacheControl = Some (pre @ ''max-age='' @ ds @ post)
                 \<and> ds \<noteq> [] \<and> set ds \<subseteq> set ''0123456789''
                 \<and> (post = [] \<or> hd post \<notin> set ''0123456789'')
                 \<and> (\<forall>pre' c post'.
                       pre @ ''max-age='' @ ds @ post = pre' @ ''max-age='' @ c # post'
                       \<and> c \<in> set ''0123456789'' \<longrightarrow> length pre \<le> length pre')"
    then have d1: "ds \<noteq> []" and d2: "\<forall>c \<in> set ds. is_digit c"
      and d3: "post = [] \<or> \<not> is_digit (hd post)"
      and d4: "\<forall>pre' c post'.
                 pre @ ''max-age='' @ ds @ post = pre' @ ''max-age='' @ c # post'
                 \<and> is_digit c \<longrightarrow> length pre \<le> length pre'"
      unfolding is_digit_def by blast+
    from maxAgeMatch_leftmost [OF d1 d2 d3 d4] h
    show "maxAgeOf cacheControl = int (foldl (\<lambda>a c. 10 * a + (of_char c - 48)) 0 ds)"
      by (simp add: maxAgeOf_def digits_value_def digit_value_def)
  qed
  from result entry holds origin absent nomatch match
  show "\<exists>keyMap maxAge.
          fst (fetchGooglePublicKeys pf w) = Inr keyMap
          \<and> jwkCache (snd (fetchGooglePublicKeys pf w))
              = Some \<lparr>jwk_keys = keyMap, jwk_expiry = clock w div 1000 + maxAge\<rparr>
          \<and> (\<forall>k \<in> set ks. \<exists>keyId. jwk_kid k = Some keyId \<and> map_of keyMap keyId \<noteq> None)
          \<and> (\<forall>keyId key. map_of keyMap keyId = Some key \<longrightarrow>
                (\<exists>k \<in> set ks. jwk_kid k = Some keyId \<and> importKey pf k = Some key))
          \<and> (cacheControl = None \<longrightarrow> maxAge = 3600)
          \<and> (\<forall>cc. cacheControl = Some cc
                   \<and> \<not> (\<exists>pre c post. cc = pre @ ''max-age='' @ c # post
                                      \<and> c \<in> set ''0123456789'') \<longrightarrow>
                maxAge = 3600)
          \<and> (\<forall>pre ds post.
                cacheControl = Some (pre @ ''max-age='' @ ds @ post)
                \<and> ds \<noteq> [] \<and> set ds \<subseteq> set ''0123456789''
                \<and> (post = [] \<or> hd post \<notin> set ''0123456789'')
                \<and> (\<forall>pre' c post'.
                      pre @ ''max-age='' @ ds @ post = pre' @ ''max-age='' @ c # post'
                      \<and> c \<in> set ''0123456789'' \<longrightarrow> length pre \<le> length pre') \<longrightarrow>
                maxAge = int (foldl (\<lambda>a c. 10 * a + (of_char c - 48)) 0 ds))"
    by blast
qed

lemma jwks_reply_platform_with_jwks:
  "jwks_reply (platform_with_jwks cc ks) = JwksReply True cc (Some ks)"
  by (simp add: platform_with_jwks_def)

lemma stale_miss:
  "\<forall>c. jwkCache stale_world = Some c \<longrightarrow> jwk_expiry c \<le> clock stale_world div 1000"
  by (simp add: stale_world_def stale_cache_def demo_world_def)

lemma demo_jwk_imported:
  "[demo_jwk] \<noteq> []
   \<and> (\<forall>k \<in> set [demo_jwk]. jwk_kty k = Some ''RSA''
          \<and> jwk_alg k \<noteq> None \<and> jwk_alg k \<noteq> Some []
          \<and> jwk_kid k \<noteq> None \<and> jwk_kid k \<noteq> Some []
          \<and> jwk_n k \<noteq> None \<and> jwk_n k \<noteq> Some []
          \<and> jwk_e k \<noteq> None \<and> jwk_e k \<noteq> Some []
          \<and> importKey (platform_with_jwks cc ks) k \<noteq> None)"
  by (simp add: demo_jwk_def platform_with_jwks_def demo_platform_def)

lemma no_cache_no_match:
  "\<not> (\<exists>pre c post. ''no-cache'' = pre @ ''max-age='' @ c # post \<and> c \<in> set ''0123456789'')"
proof
  assume "\<exists>pre c post. ''no-cache'' = pre @ ''max-age='' @ c # post \<and> c \<in> set ''0123456789''"
  then obtain pre c post where eq: "''no-cache'' = pre @ ''max-age='' @ c # post"
    by blast
  have "CHR ''m'' \<in> set (pre @ ''max-age='' @ c # post)" by simp
  then have "CHR ''m'' \<in> set ''no-cache''" unfolding eq [symmetric] .
  then show False by simp
qed

theorem fetchGooglePublicKeys_all_or_nothing_witness:
  "jwkCache stale_world = Some stale_cache
   \<and> jwk_expiry stale_cache \<le> clock stale_world div 1000
   \<and> jwks_reply (platform_with_jwks None [demo_jwk, bad_jwk])
       = JwksReply True None (Some [demo_jwk, bad_jwk])
   \<and> jwk_kty bad_jwk \<noteq> Some ''RSA''
   \<and> fst (fetchGooglePublicKeys (platform_with_jwks None [demo_jwk, bad_jwk]) stale_world)
       = Inl (FirebaseAuthError ''invalid-jwk'')
   \<and> jwkCache (snd (fetchGooglePublicKeys (platform_with_jwks None [demo_jwk, bad_jwk])
                       stale_world)) = Some stale_cache
   \<and> fst (fetchGooglePublicKeys (platform_with_jwks None []) stale_world)
       = Inl (FirebaseAuthError ''no-valid-jwks'')
   \<and> jwkCache (snd (fetchGooglePublicKeys (platform_with_jwks None []) stale_world))
       = Some stale_cache
   \<and> (\<exists>keyMap.
         fst (fetchGooglePublicKeys (platform_with_jwks (Some ''no-cache'') [demo_jwk])
                stale_world) = Inr keyMap
         \<and> map_of keyMap ''k1'' = Some (CryptoKey 1)
         \<and> jwkCache (snd (fetchGooglePublicKeys
                             (platform_with_jwks (Some ''no-cache'') [demo_jwk]) stale_world))
             = Some \<lparr>jwk_keys = keyMap, jwk_expiry = 1000 + 3600\<rparr>)
   \<and> (\<exists>keyMap.
         fst (fetchGooglePublicKeys
                (platform_with_jwks (Some ''public, max-age=19000, must-revalidate'')
                   [demo_jwk]) stale_world) = Inr keyMap
         \<and> map_of keyMap ''k1'' = Some (CryptoKey 1)
         \<and> jwkCache (snd (fetchGooglePublicKeys
                             (platform_with_jwks
                                (Some ''public, max-age=19000, must-revalidate'') [demo_jwk])
                             stale_world))
             = Some \<lparr>jwk_keys = keyMap, jwk_expiry = 1000 + 19000\<rparr>)"
proof -
  have bad: "jwk_kty bad_jwk \<noteq> Some ''RSA''"
    by (simp add: bad_jwk_def demo_jwk_def)
  have imported: "\<And>cc ks k. importKey (platform_with_jwks cc ks) k = Some (CryptoKey 1)"
    by (simp add: platform_with_jwks_def demo_platform_def)
  have kid1: "jwk_kid demo_jwk = Some ''k1''"
    by (simp add: demo_jwk_def)
  have now: "clock stale_world div 1000 = 1000"
    by (simp add: stale_world_def demo_world_def)
  have cache: "jwkCache stale_world = Some stale_cache"
    by (simp add: stale_world_def)
  have stale: "jwk_expiry stale_cache \<le> clock stale_world div 1000"
    by (simp add: now stale_cache_def)
  let ?two = "platform_with_jwks None [demo_jwk, bad_jwk]"
  let ?none = "platform_with_jwks None []"
  let ?one = "platform_with_jwks (Some ''no-cache'') [demo_jwk]"
  let ?age = "platform_with_jwks (Some ''public, max-age=19000, must-revalidate'') [demo_jwk]"
  note broken = fetchGooglePublicKeys_all_or_nothing
    [OF stale_miss jwks_reply_platform_with_jwks [of None "[demo_jwk, bad_jwk]"]]
  note empty = fetchGooglePublicKeys_all_or_nothing
    [OF stale_miss jwks_reply_platform_with_jwks [of None "[]"]]
  note fine = fetchGooglePublicKeys_all_or_nothing
    [OF stale_miss jwks_reply_platform_with_jwks [of "Some ''no-cache''" "[demo_jwk]"]]
  note aged = fetchGooglePublicKeys_all_or_nothing
    [OF stale_miss
        jwks_reply_platform_with_jwks
          [of "Some ''public, max-age=19000, must-revalidate''" "[demo_jwk]"]]
  have miss: "cachedKeys stale_world = None"
    unfolding cachedKeys_miss by (rule stale_miss)
  have code: "fst (fetchGooglePublicKeys ?two stale_world)
                = Inl (FirebaseAuthError ''invalid-jwk'')"
    by (simp add: fetchGooglePublicKeys_def cachedKeys_trace miss
          jwks_reply_platform_with_jwks malformed_jwk_fields bad Let_def)
  from bad have "\<exists>k \<in> set [demo_jwk, bad_jwk]. jwk_kty k \<noteq> Some ''RSA''
                       \<or> jwk_alg k = None \<or> jwk_alg k = Some []
                       \<or> jwk_kid k = None \<or> jwk_kid k = Some []
                       \<or> jwk_n k = None \<or> jwk_n k = Some []
                       \<or> jwk_e k = None \<or> jwk_e k = Some []
                       \<or> importKey ?two k = None"
    by simp
  with broken
  have kept: "jwkCache (snd (fetchGooglePublicKeys ?two stale_world)) = Some stale_cache"
    unfolding cache by blast
  from empty
  have nokeys: "fst (fetchGooglePublicKeys ?none stale_world)
                  = Inl (FirebaseAuthError ''no-valid-jwks'')"
    and kept': "jwkCache (snd (fetchGooglePublicKeys ?none stale_world)) = Some stale_cache"
    by (simp_all only: cache)
  have default:
    "\<exists>keyMap. fst (fetchGooglePublicKeys ?one stale_world) = Inr keyMap
       \<and> map_of keyMap ''k1'' = Some (CryptoKey 1)
       \<and> jwkCache (snd (fetchGooglePublicKeys ?one stale_world))
           = Some \<lparr>jwk_keys = keyMap, jwk_expiry = 1000 + 3600\<rparr>"
  proof -
    from fine [THEN conjunct2, THEN conjunct2, THEN mp,
               OF demo_jwk_imported [of "Some ''no-cache''" "[demo_jwk]"]]
    obtain km ma where
      result: "fst (fetchGooglePublicKeys ?one stale_world) = Inr km"
      and entry: "jwkCache (snd (fetchGooglePublicKeys ?one stale_world))
                    = Some \<lparr>jwk_keys = km, jwk_expiry = clock stale_world div 1000 + ma\<rparr>"
      and holds: "\<forall>k \<in> set [demo_jwk]. \<exists>keyId. jwk_kid k = Some keyId
                                             \<and> map_of km keyId \<noteq> None"
      and origin: "\<forall>keyId key. map_of km keyId = Some key \<longrightarrow>
                     (\<exists>k \<in> set [demo_jwk]. jwk_kid k = Some keyId
                                          \<and> importKey ?one k = Some key)"
      and nomatch: "\<forall>cc. Some ''no-cache'' = Some cc
                      \<and> \<not> (\<exists>pre c post. cc = pre @ ''max-age='' @ c # post
                                         \<and> c \<in> set ''0123456789'') \<longrightarrow>
                      ma = 3600"
      by (elim exE conjE) (rule that; assumption)
    from holds kid1 obtain key where key: "map_of km ''k1'' = Some key"
      by auto
    with origin have "key = CryptoKey 1"
      by (auto simp: imported)
    moreover from nomatch no_cache_no_match have "ma = 3600"
      by blast
    ultimately show ?thesis
      using result entry key now by simp
  qed
  have header:
    "\<exists>keyMap. fst (fetchGooglePublicKeys ?age stale_world) = Inr keyMap
       \<and> map_of keyMap ''k1'' = Some (CryptoKey 1)
       \<and> jwkCache (snd (fetchGooglePublicKeys ?age stale_world))
           = Some \<lparr>jwk_keys = keyMap, jwk_expiry = 1000 + 19000\<rparr>"
  proof -
    let ?cc = "''public, max-age=19000, must-revalidate''"
    from aged [THEN conjunct2, THEN conjunct2, THEN mp,
               OF demo_jwk_imported [of "Some ?cc" "[demo_jwk]"]]
    obtain km ma where
      result: "fst (fetchGooglePublicKeys ?age stale_world) = Inr km"
      and entry: "jwkCache (snd (fetchGooglePublicKeys ?age stale_world))
                    = Some \<lparr>jwk_keys = km, jwk_expiry = clock stale_world div 1000 + ma\<rparr>"
      and holds: "\<forall>k \<in> set [demo_jwk]. \<exists>keyId. jwk_kid k = Some keyId
                                             \<and> map_of km keyId \<noteq> None"
      and origin: "\<forall>keyId key. map_of km keyId = Some key \<longrightarrow>
                     (\<exists>k \<in> set [demo_jwk]. jwk_kid k = Some keyId
                                          \<and> importKey ?age k = Some key)"
      and match: "\<forall>pre ds post.
                    Some ?cc = Some (pre @ ''max-age='' @ ds @ post)
                    \<and> ds \<noteq> [] \<and> set ds \<subseteq> set ''0123456789''
                    \<and> (post = [] \<or> hd post \<notin> set ''0123456789'')
                    \<and> (\<forall>pre' c post'.
                          pre @ ''max-age='' @ ds @ post = pre' @ ''max-age='' @ c # post'
                          \<and> c \<in> set ''0123456789'' \<longrightarrow> length pre \<le> length pre') \<longrightarrow>
                    ma = int (foldl (\<lambda>a c. 10 * a + (of_char c - 48)) 0 ds)"
      by (elim exE conjE) (rule that; assumption)
    from holds kid1 obtain key where key: "map_of km ''k1'' = Some key"
      by auto
    with origin have k1: "key = CryptoKey 1"
      by (auto simp: imported)
    have parts: "Some ?cc = Some (''public, '' @ ''max-age='' @ ''19000'' @ '', must-revalidate'')"
      by simp
    have digits: "''19000'' \<noteq> [] \<and> set ''19000'' \<subseteq> set ''0123456789''"
      by simp
    have after: "'', must-revalidate'' = [] \<or> hd '', must-revalidate'' \<notin> set ''0123456789''"
      by simp
    have leftmost:
      "\<forall>pre' c post'.
         ''public, '' @ ''max-age='' @ ''19000'' @ '', must-revalidate''
           = pre' @ ''max-age='' @ c # post'
         \<and> c \<in> set ''0123456789'' \<longrightarrow> length ''public, '' \<le> length pre'"
    proof (intro allI impI)
      fix pre' c post'
      assume "''public, '' @ ''max-age='' @ ''19000'' @ '', must-revalidate''
                = pre' @ ''max-age='' @ c # post'
              \<and> c \<in> set ''0123456789''"
      then have "''public, '' @ (''max-age='' @ ''19000'' @ '', must-revalidate'')
                   = pre' @ ''max-age='' @ (c # post')"
        by simp
      moreover have "CHR ''m'' \<notin> set ''public, ''" by simp
      ultimately show "length ''public, '' \<le> length pre'"
        using leftmost_without_m by blast
    qed
    from match [rule_format, of "''public, ''" "''19000''" "'', must-revalidate''"]
         parts digits after leftmost
    have "ma = int (foldl (\<lambda>a c. 10 * a + (of_char c - 48)) 0 ''19000'')"
      by blast
    then have "ma = 19000" by simp
    with k1 show ?thesis
      using result entry key now by simp
  qed
  from cache stale jwks_reply_platform_with_jwks [of None "[demo_jwk, bad_jwk]"] bad code kept
       nokeys kept' default header
  show ?thesis by blast
qed

section \<open>Access-token minter: the cache\<close>

lemma demo_fetchAccessToken:
  "fetchAccessToken demo_config demo_platform demo_world = (Inr demo_token, token_world)"
  by (simp add: fetchAccessToken_def cachedAccessToken_def createSignedJwt_def effect_def
        demo_platform_def demo_config_def demo_world_def demo_token_def token_world_def
        now_seconds_def Let_def)

lemma demo_token_miss: "cachedAccessToken demo_world = None"
  by (simp add: cachedAccessToken_def demo_world_def)

text \<open>
  C8: a first call finds no fresh token in the cache and returns a token; a second call,
  by any instance at any time (in milliseconds) whose second is before the expiry of
  that token, follows. Then the first call has signed one assertion and posted it to the
  token end point once, the token it returned and cached expires at
  \<open>now + expires_in - 60\<close>, for the \<open>now\<close> of the first call and the \<open>expires_in\<close> of
  the answer, and the second call returns that token and leaves the state and the trace
  as they are: it signs and fetches nothing.
\<close>

theorem fetchAccessToken_cached:
  assumes miss: "cachedAccessToken w = None"
      and first: "fetchAccessToken cfg pf w = (Inr tok, w1)"
      and within: "c2 div 1000 < expiry tok"
  shows "(\<exists>access_token expires_in.
            token_reply pf = TokenReply True (Some (access_token, expires_in))
            \<and> tok = \<lparr>token = access_token, expiry = now_seconds w + expires_in - 60\<rparr>)
       \<and> accessTokenCache w1 = Some tok
       \<and> trace w1 = trace w @ [SignJwt, Fetch GOOGLE_OAUTH2_TOKEN_URL]
       \<and> fetchAccessToken cfg2 pf2 (w1\<lparr>clock := c2\<rparr>) = (Inr tok, w1\<lparr>clock := c2\<rparr>)"
  using assms
  by (auto simp: fetchAccessToken_def createSignedJwt_def effect_def Let_def
        cachedAccessToken_def now_seconds_def
        split: option.splits token_reply.splits if_splits)

theorem fetchAccessToken_cached_witness:
  "cachedAccessToken demo_world = None
   \<and> fetchAccessToken demo_config demo_platform demo_world = (Inr demo_token, token_world)
   \<and> (4539999 :: int) div 1000 < expiry demo_token
   \<and> token_reply demo_platform = TokenReply True (Some (''at'', 3600))
   \<and> demo_token = \<lparr>token = ''at'', expiry = now_seconds demo_world + 3600 - 60\<rparr>
   \<and> accessTokenCache token_world = Some demo_token
   \<and> trace token_world = trace demo_world @ [SignJwt, Fetch GOOGLE_OAUTH2_TOKEN_URL]
   \<and> fetchAccessToken demo_config demo_platform (token_world\<lparr>clock := 4539999\<rparr>)
       = (Inr demo_token, token_world\<lparr>clock := 4539999\<rparr>)"
proof -
  have within: "(4539999 :: int) div 1000 < expiry demo_token"
    by (simp add: demo_token_def)
  have reply: "token_reply demo_platform = TokenReply True (Some (''at'', 3600))"
    by (simp add: demo_platform_def)
  have minted: "demo_token = \<lparr>token = ''at'', expiry = now_seconds demo_world + 3600 - 60\<rparr>"
    by (simp add: demo_token_def demo_world_def now_seconds_def)
  have cached: "accessTokenCache token_world = Some demo_token"
    by (simp add: token_world_def)
  have traced: "trace token_world = trace demo_world @ [SignJwt, Fetch GOOGLE_OAUTH2_TOKEN_URL]"
    by (simp add: token_world_def demo_world_def)
  from fetchAccessToken_cached
         [OF demo_token_miss demo_fetchAccessToken within, of demo_config demo_platform]
  have again: "fetchAccessToken demo_config demo_platform (token_world\<lparr>clock := 4539999\<rparr>)
                 = (Inr demo_token, token_world\<lparr>clock := 4539999\<rparr>)"
    by blast
  from demo_token_miss demo_fetchAccessToken within reply minted cached traced again
  show ?thesis by blast
qed

section \<open>Connection proxy: the returned document\<close>

text \<open>
  C7, as stated, fails: a returned document keeps the \<open>ObjectId\<close> of a field other than
  \<open>_id\<close>, and an \<open>_id\<close> that is a number is returned as a number.
\<close>

theorem findOne_result_counterexample:
  "findOne_result (Some form_doc)
     = Some [(''_id'', BString ''64b7f0c2a1d3e4f5a6b7c8d9''),
             (''owner'', BObjectId ''64b7f0c2a1d3e4f5a6b7c8da''),
             (''slug'', BString ''xyz'')]
   \<and> contains_ObjectId
        (BDocument [(''_id'', BString ''64b7f0c2a1d3e4f5a6b7c8d9''),
                    (''owner'', BObjectId ''64b7f0c2a1d3e4f5a6b7c8da''),
                    (''slug'', BString ''xyz'')])
   \<and> findOne_result (Some counter_doc) = Some counter_doc
   \<and> \<not> id_is_string counter_doc"
  by (simp add: findOne_result_def serializableResult_def form_doc_def counter_doc_def
        id_is_string_def)

text \<open>
  C7, amended: a non-null document returned by \<open>findOne\<close> is the raw document in which a
  top-level \<open>_id\<close> that is an \<open>ObjectId\<close> is replaced by its string; every other field,
  and an \<open>_id\<close> of another type, is as the driver gave it. So the top-level \<open>_id\<close> of a
  returned document is never a raw \<open>ObjectId\<close>.
\<close>

theorem findOne_result_id:
  "findOne_result (Some d) = Some (serializableResult d)
   \<and> map_of (serializableResult d) ''_id''
       = (case map_of d ''_id'' of
            Some (BObjectId hex) \<Rightarrow> Some (BString hex)
          | v \<Rightarrow> v)
   \<and> (\<forall>k. k \<noteq> ''_id'' \<longrightarrow> map_of (serializableResult d) k = map_of d k)
   \<and> (\<forall>hex. map_of (serializableResult d) ''_id'' \<noteq> Some (BObjectId hex))"
  by (auto simp: findOne_result_def serializableResult_def update_conv'
           split: option.splits bson.splits)

theorem findOne_result_id_witness:
  "findOne_result (Some form_doc) = Some (serializableResult form_doc)
   \<and> map_of form_doc ''_id'' = Some (BObjectId ''64b7f0c2a1d3e4f5a6b7c8d9'')
   \<and> map_of (serializableResult form_doc) ''_id'' = Some (BString ''64b7f0c2a1d3e4f5a6b7c8d9'')
   \<and> ''slug'' \<noteq> ''_id''
   \<and> map_of (serializableResult form_doc) ''slug'' = Some (BString ''xyz'')"
proof -
  have id: "map_of form_doc ''_id'' = Some (BObjectId ''64b7f0c2a1d3e4f5a6b7c8d9'')"
    and slug: "map_of form_doc ''slug'' = Some (BString ''xyz'')"
    by (simp_all add: form_doc_def)
  from findOne_result_id [of form_doc] id slug show ?thesis
    by simp
qed

section \<open>Connection proxy: one connection attempt at a time\<close>

lemma coalesced_fresh: "coalesced (fresh n)"
  by (auto simp: coalesced_def fresh_def)

lemma length_calls_step: "length (calls (do_step x s)) = length (calls s)"
  by (cases x)
     (auto simp: run_call_def start_connect_def connect_settles_def query_settles_def
           split: call_state.splits promise_state.splits option.splits)

lemma coalesced_start_connect:
  assumes "coalesced s" "dbInstance s = None" "connectPromise s = None"
  shows "coalesced (start_connect i s)"
  using assms by (auto simp: coalesced_def start_connect_def)

lemma promise_at_mem: "p < length (promises s) \<Longrightarrow> promise_at s p \<in> set (promises s)"
  by (simp add: promise_at_def)

lemma fulfilled_db:
  assumes "coalesced s" "promise_at s p = Fulfilled"
  shows "dbInstance s \<noteq> None"
proof -
  from assms(2) have "p < length (promises s)"
    by (auto simp: promise_at_def split: if_splits)
  from promise_at_mem [OF this] assms(2) have "Fulfilled \<in> set (promises s)"
    by simp
  with assms(1) show ?thesis
    by (auto simp: coalesced_def)
qed

lemma coalesced_calls_update:
  assumes "coalesced s" "promises s \<noteq> []"
  shows "coalesced (s\<lparr>calls := cs\<rparr>)"
  using assms by (auto simp: coalesced_def)

lemma live_promises: 
  assumes "coalesced s" "dbInstance s \<noteq> None \<or> connectPromise s \<noteq> None"
  shows "promises s \<noteq> []"
  using assms by (auto simp: coalesced_def)

lemma settled_promises:
  "promise_at s p \<noteq> Pending \<Longrightarrow> promises s \<noteq> []"
  by (auto simp: promise_at_def split: if_splits)

lemma started_promises:
  assumes "coalesced s" "i < length (calls s)" "calls s ! i \<noteq> NotStarted"
  shows "promises s \<noteq> []"
proof
  assume "promises s = []"
  with assms(1) have "set (calls s) \<subseteq> {NotStarted}" by (simp add: coalesced_def)
  with assms(2) have "calls s ! i = NotStarted" using nth_mem by blast
  with assms(3) show False by simp
qed

lemma coalesced_run_call:
  assumes inv: "coalesced s"
  shows "coalesced (run_call i s)"
proof (cases "length (calls s) \<le> i")
  case True
  with inv show ?thesis by (simp add: run_call_def)
next
  case False
  then have i: "i < length (calls s)" by simp
  show ?thesis
  proof (cases "calls s ! i")
    case NotStarted
    show ?thesis
    proof (cases "dbInstance s \<noteq> None \<or> connectPromise s \<noteq> None")
      case True
      with inv have "promises s \<noteq> []" by (rule live_promises)
      with inv True NotStarted i show ?thesis
        by (auto simp: run_call_def coalesced_calls_update)
    next
      case False
      with inv NotStarted i show ?thesis
        by (simp add: run_call_def coalesced_start_connect)
    qed
  next
    case (AwaitExisting p)
    from inv i have ne: "promises s \<noteq> []"
      by (rule started_promises) (simp add: AwaitExisting)
    show ?thesis
    proof (cases "promise_at s p")
      case Pending
      with inv AwaitExisting i show ?thesis by (simp add: run_call_def)
    next
      case Fulfilled
      with inv have "dbInstance s \<noteq> None" by (rule fulfilled_db)
      with inv AwaitExisting i Fulfilled ne show ?thesis
        by (auto simp: run_call_def coalesced_calls_update)
    next
      case Rejected
      with inv AwaitExisting i ne show ?thesis
        by (simp add: run_call_def coalesced_calls_update)
    qed
  next
    case (AwaitOwn p)
    from inv i have ne: "promises s \<noteq> []"
      by (rule started_promises) (simp add: AwaitOwn)
    with inv AwaitOwn i show ?thesis
      by (auto simp: run_call_def coalesced_calls_update split: promise_state.splits)
  next
    case Connected
    from inv i have ne: "promises s \<noteq> []"
      by (rule started_promises) (simp add: Connected)
    with inv Connected i show ?thesis
      by (auto simp: run_call_def coalesced_calls_update)
  next
    case Querying
    with inv i show ?thesis by (simp add: run_call_def)
  next
    case (Returned r)
    with inv i show ?thesis by (simp add: run_call_def)
  next
    case Thrown
    with inv i show ?thesis by (simp add: run_call_def)
  qed
qed

lemma pending_last:
  assumes "promises s = replicate k Rejected @ [x]" "promise_at s p = Pending"
          "p < length (promises s)"
  shows "p = k \<and> x = Pending"
  using assms by (auto simp: promise_at_def nth_append split: if_splits)

lemma coalesced_connect_settles:
  assumes inv: "coalesced s"
  shows "coalesced (connect_settles p ok s)"
proof (cases "promise_at s p = Pending \<and> p < length (promises s)")
  case False
  with inv show ?thesis by (auto simp: connect_settles_def)
next
  case True
  then have "Pending \<in> set (promises s)"
    using promise_at_mem [of p s] by simp
  with inv obtain k where
    k: "promises s = replicate k Rejected @ [Pending]" "dbInstance s = None"
       "connectPromise s = Some k"
    by (auto simp: coalesced_def)
  with True have p: "p = k" using pending_last by blast
  have upd: "\<And>y. (replicate k Rejected @ [Pending])[k := y] = replicate k Rejected @ [y]"
    by (simp add: list_update_append)
  have rep: "replicate k Rejected @ [Rejected] = replicate (Suc k) Rejected"
    by (simp add: replicate_append_same)
  from inv have cc: "connect_calls s = length (promises s)" by (simp add: coalesced_def)
  show ?thesis
  proof (cases ok)
    case True
    with \<open>promise_at s p = Pending \<and> p < length (promises s)\<close> k p cc upd show ?thesis
      by (auto simp: connect_settles_def coalesced_def)
  next
    case False
    with \<open>promise_at s p = Pending \<and> p < length (promises s)\<close> k p cc upd rep show ?thesis
      unfolding connect_settles_def coalesced_def
      by (auto intro!: exI[of _ "Suc k"] simp del: replicate_Suc)
  qed
qed

lemma coalesced_query_settles:
  assumes inv: "coalesced s"
  shows "coalesced (query_settles i answer s)"
proof (cases "i < length (calls s) \<and> calls s ! i = Querying")
  case False
  with inv show ?thesis by (auto simp: query_settles_def)
next
  case True
  with inv have "promises s \<noteq> []"
    using started_promises [of s i] by simp
  with inv True show ?thesis
    by (auto simp: query_settles_def coalesced_calls_update split: option.splits)
qed

lemma coalesced_step: "coalesced s \<Longrightarrow> coalesced (do_step x s)"
  by (cases x) (simp_all add: coalesced_run_call coalesced_connect_settles coalesced_query_settles)

lemma coalesced_run: "coalesced s \<Longrightarrow> coalesced (run sched s)"
  by (induction sched arbitrary: s) (simp_all add: coalesced_step)

lemma coalesced_accounting:
  assumes "coalesced s"
  shows "connect_calls s = failed_attempts s + (if connection_live s then 1 else 0)"
  using assms
  by (auto simp: coalesced_def failed_attempts_def connection_live_def)


lemma length_calls_run: "length (calls (run sched s)) = length (calls s)"
  by (induction sched arbitrary: s) (simp_all add: length_calls_step)

lemma run_append: "run (xs @ ys) s = run ys (run xs s)"
  by (induction xs arbitrary: s) simp_all

lemma started_stays:
  assumes "i < length (calls s)" "calls s ! i \<noteq> NotStarted"
  shows "calls (do_step x s) ! i \<noteq> NotStarted"
  using assms
  by (cases x)
     (auto simp: run_call_def start_connect_def connect_settles_def query_settles_def
           nth_list_update
           split: call_state.splits promise_state.splits option.splits)

lemma run_call_starts:
  assumes "i < length (calls s)"
  shows "calls (run_call i s) ! i \<noteq> NotStarted"
  using assms
  by (auto simp: run_call_def start_connect_def
           split: call_state.splits promise_state.splits option.splits)

lemma arrivals_started:
  assumes "i < length (calls s)" "i \<in> set arrivals \<or> calls s ! i \<noteq> NotStarted"
  shows "calls (run (map Run arrivals) s) ! i \<noteq> NotStarted"
  using assms
proof (induction arrivals arbitrary: s)
  case Nil
  then show ?case by simp
next
  case (Cons j js)
  have len: "i < length (calls (run_call j s))"
    using Cons.prems(1) length_calls_step [of "Run j" s] by simp
  have "i \<in> set js \<or> calls (run_call j s) ! i \<noteq> NotStarted"
  proof (cases "i = j")
    case True
    with Cons.prems(1) show ?thesis by (simp add: run_call_starts)
  next
    case False
    with Cons.prems(2) have "i \<in> set js \<or> calls s ! i \<noteq> NotStarted" by auto
    then show ?thesis
      using started_stays [OF Cons.prems(1), of "Run j"] by auto
  qed
  with Cons.IH [OF len] show ?case by simp
qed

lemma arrivals_no_failure:
  "Rejected \<notin> set (promises s) \<Longrightarrow> Rejected \<notin> set (promises (run (map Run arrivals) s))"
proof (induction arrivals arbitrary: s)
  case Nil
  then show ?case by simp
next
  case (Cons j js)
  from Cons.prems have "Rejected \<notin> set (promises (run_call j s))"
    by (auto simp: run_call_def start_connect_def
             split: call_state.splits promise_state.splits option.splits)
  from Cons.IH [OF this] show ?case by simp
qed

lemma all_started_step:
  assumes "all_started s"
  shows "all_started (do_step x s)"
proof -
  have "\<And>i. i < length (calls (do_step x s)) \<Longrightarrow> calls (do_step x s) ! i \<noteq> NotStarted"
  proof -
    fix i assume "i < length (calls (do_step x s))"
    then have i: "i < length (calls s)" by (simp add: length_calls_step)
    with assms have "calls s ! i \<noteq> NotStarted"
      by (auto simp: all_started_def dest: nth_mem)
    with i show "calls (do_step x s) ! i \<noteq> NotStarted" by (rule started_stays)
  qed
  then show ?thesis
    by (auto simp: all_started_def in_set_conv_nth)
qed

lemma no_new_connect:
  assumes inv: "coalesced s" and started: "all_started s"
  shows "connect_calls (do_step x s) = connect_calls s"
proof (cases x)
  case (Run i)
  show ?thesis
  proof (cases "i < length (calls s)")
    case False
    with Run show ?thesis by (simp add: run_call_def)
  next
    case True
    with started have ns: "calls s ! i \<noteq> NotStarted"
      by (auto simp: all_started_def dest: nth_mem)
    have "\<forall>p. promise_at s p = Fulfilled \<longrightarrow> dbInstance s \<noteq> None"
      using inv fulfilled_db by blast
    with ns True Run show ?thesis
      by (auto simp: run_call_def split: call_state.splits promise_state.splits)
  qed
next
  case (ConnectSettles p ok)
  then show ?thesis by (simp add: connect_settles_def)
next
  case (QuerySettles i answer)
  then show ?thesis by (auto simp: query_settles_def split: option.splits)
qed

lemma no_new_connect_run:
  assumes "coalesced s" "all_started s"
  shows "connect_calls (run sched s) = connect_calls s"
  using assms
proof (induction sched arbitrary: s)
  case Nil
  then show ?case by simp
next
  case (Cons x xs)
  from Cons.prems have "coalesced (do_step x s)" "all_started (do_step x s)"
    by (simp_all add: coalesced_step all_started_step)
  from Cons.IH [OF this] no_new_connect [OF Cons.prems] show ?case by simp
qed

lemma concurrent_calls_one_connect:
  assumes n: "0 < n" and arrived: "\<forall>i<n. i \<in> set arrivals"
  shows "connect_calls (run (map Run arrivals @ later) (fresh n)) = 1"
proof -
  let ?s = "run (map Run arrivals) (fresh n)"
  have inv: "coalesced ?s" by (simp add: coalesced_run coalesced_fresh)
  have len: "length (calls ?s) = n" by (simp add: length_calls_run fresh_def)
  have each: "\<And>i. i < n \<Longrightarrow> calls ?s ! i \<noteq> NotStarted"
    using arrived by (intro arrivals_started) (simp_all add: fresh_def)
  with len have started: "all_started ?s"
    by (auto simp: all_started_def in_set_conv_nth)
  from n len have "calls ?s ! 0 \<in> set (calls ?s)" by simp
  moreover from n have "calls ?s ! 0 \<noteq> NotStarted" by (rule each)
  ultimately have "\<not> set (calls ?s) \<subseteq> {NotStarted}" by auto
  with inv have ne: "promises ?s \<noteq> []" by (auto simp: coalesced_def)
  have "Rejected \<notin> set (promises ?s)"
    by (rule arrivals_no_failure) (simp add: fresh_def)
  then have "failed_attempts ?s = 0" by (auto simp: failed_attempts_def filter_empty_conv)
  with coalesced_accounting [OF inv] have "connect_calls ?s \<le> 1" by simp
  moreover from inv ne have "0 < connect_calls ?s" by (simp add: coalesced_def)
  ultimately have "connect_calls ?s = 1" by simp
  with no_new_connect_run [OF inv started, of later] show ?thesis
    by (simp add: run_append)
qed

lemma pending_no_db:
  assumes "coalesced s" "promise_at s p = Pending" "p < length (promises s)"
  shows "dbInstance s = None"
proof -
  from promise_at_mem [OF assms(3)] assms(2) have "Pending \<in> set (promises s)" by simp
  with assms(1) show ?thesis by (auto simp: coalesced_def)
qed

lemma retry_succeeds:
  assumes "i < length (calls s)" "calls s ! i = NotStarted" "dbInstance s = None"
          "connectPromise s = None"
  shows "connect_calls (run_call i s) = connect_calls s + 1"
    and "connectPromise (run_call i s) = Some (length (promises s))"
    and "calls (run [Run i, ConnectSettles (length (promises s)) True, Run i, Run i,
                     QuerySettles i (Some rawResult)] s) ! i = Returned (findOne_result rawResult)"
    and "connect_calls (run [Run i, ConnectSettles (length (promises s)) True, Run i, Run i,
                     QuerySettles i (Some rawResult)] s) = connect_calls s + 1"
  using assms
  by (simp_all add: run_call_def start_connect_def connect_settles_def query_settles_def
        promise_at_def nth_append)


text \<open>
  C6: for a fresh object with \<open>n\<close> calls of \<open>findOne\<close> and any schedule:
  \<^item> when all the calls arrive (each runs up to its first \<open>await\<close>) before the driver
    settles anything, \<open>client.connect\<close> is called exactly once, whatever happens later;
  \<^item> at any moment the number of calls of \<open>client.connect\<close> is the number of failed
    attempts, plus one when a connection is established or being established;
  \<^item> a call that arrives while the stored promise is pending awaits that promise and
    starts no attempt;
  \<^item> when the pending attempt fails, the database handle and the stored promise are
    cleared;
  \<^item> a call that arrives when both are cleared starts a new attempt, and when that
    attempt succeeds and the driver answers the query, the call returns the document.
\<close>

theorem ensureConnected_single_flight:
  assumes s: "s = run sched (fresh n)"
  shows "(0 < n \<and> (\<forall>i<n. i \<in> set arrivals) \<longrightarrow>
            connect_calls (run (map Run arrivals @ later) (fresh n)) = 1)
       \<and> connect_calls s = failed_attempts s + (if connection_live s then 1 else 0)
       \<and> (\<forall>i p. i < n \<and> calls s ! i = NotStarted \<and> connectPromise s = Some p
                  \<and> p < length (promises s) \<and> promise_at s p = Pending \<longrightarrow>
            run_call i s = s\<lparr>calls := (calls s)[i := AwaitExisting p]\<rparr>)
       \<and> (\<forall>p. p < length (promises s) \<and> promise_at s p = Pending \<longrightarrow>
            dbInstance (connect_settles p False s) = None
            \<and> connectPromise (connect_settles p False s) = None)
       \<and> (\<forall>i rawResult. i < n \<and> calls s ! i = NotStarted \<and> dbInstance s = None
                  \<and> connectPromise s = None \<longrightarrow>
            connect_calls (run_call i s) = connect_calls s + 1
            \<and> connectPromise (run_call i s) = Some (length (promises s))
            \<and> calls (run [Run i, ConnectSettles (length (promises s)) True, Run i, Run i,
                            QuerySettles i (Some rawResult)] s) ! i
                = Returned (findOne_result rawResult)
            \<and> connect_calls (run [Run i, ConnectSettles (length (promises s)) True, Run i,
                                   Run i, QuerySettles i (Some rawResult)] s)
                = connect_calls s + 1)"
proof -
  have inv: "coalesced s" by (simp add: s coalesced_run coalesced_fresh)
  have len: "length (calls s) = n" by (simp add: s length_calls_run fresh_def)
  show ?thesis
  proof (intro conjI allI impI)
    assume "0 < n \<and> (\<forall>i<n. i \<in> set arrivals)"
    then show "connect_calls (run (map Run arrivals @ later) (fresh n)) = 1"
      using concurrent_calls_one_connect by blast
  next
    show "connect_calls s = failed_attempts s + (if connection_live s then 1 else 0)"
      using inv by (rule coalesced_accounting)
  next
    fix i p
    assume a: "i < n \<and> calls s ! i = NotStarted \<and> connectPromise s = Some p
               \<and> p < length (promises s) \<and> promise_at s p = Pending"
    with inv have "dbInstance s = None" using pending_no_db by blast
    with a len show "run_call i s = s\<lparr>calls := (calls s)[i := AwaitExisting p]\<rparr>"
      by (simp add: run_call_def)
  next
    fix p
    assume "p < length (promises s) \<and> promise_at s p = Pending"
    then show "dbInstance (connect_settles p False s) = None"
      and "connectPromise (connect_settles p False s) = None"
      by (simp_all add: connect_settles_def)
  next
    fix i rawResult
    assume a: "i < n \<and> calls s ! i = NotStarted \<and> dbInstance s = None
               \<and> connectPromise s = None"
    with len have i: "i < length (calls s)" by simp
    from a show "connect_calls (run_call i s) = connect_calls s + 1"
      and "connectPromise (run_call i s) = Some (length (promises s))"
      and "calls (run [Run i, ConnectSettles (length (promises s)) True, Run i, Run i,
                        QuerySettles i (Some rawResult)] s) ! i
             = Returned (findOne_result rawResult)"
      and "connect_calls (run [Run i, ConnectSettles (length (promises s)) True, Run i,
                               Run i, QuerySettles i (Some rawResult)] s)
             = connect_calls s + 1"
      using retry_succeeds [OF i] by blast+
  qed
qed

lemma arrivals3_all: "\<forall>i<3. i \<in> set arrivals3"
  by (simp add: arrivals3_def numeral_3_eq_3 less_Suc_eq)

theorem ensureConnected_single_flight_witness:
  "0 < (3::nat) \<and> {..<3} \<subseteq> set arrivals3
   \<and> connect_calls (run (map Run arrivals3 @ later_ok) (fresh 3)) = 1
   \<and> calls (run sched_inflight (fresh 3)) ! 2 = NotStarted
   \<and> connectPromise (run sched_inflight (fresh 3)) = Some 0
   \<and> promise_at (run sched_inflight (fresh 3)) 0 = Pending
   \<and> calls (run_call 2 (run sched_inflight (fresh 3))) ! 2 = AwaitExisting 0
   \<and> connect_calls (run_call 2 (run sched_inflight (fresh 3))) = 1
   \<and> dbInstance (connect_settles 0 False (run sched_inflight (fresh 3))) = None
   \<and> connectPromise (connect_settles 0 False (run sched_inflight (fresh 3))) = None
   \<and> run sched_fail (fresh 3)
       = \<lparr>dbInstance = None, connectPromise = None, promises = [Rejected],
          connect_calls = 1, calls = [Thrown, Thrown, NotStarted]\<rparr>
   \<and> failed_attempts (run sched_fail (fresh 3)) = 1
   \<and> \<not> connection_live (run sched_fail (fresh 3))
   \<and> connect_calls (run_call 2 (run sched_fail (fresh 3))) = 2
   \<and> calls (run sched_retry (run sched_fail (fresh 3))) ! 2
       = Returned (findOne_result (Some form_doc))
   \<and> connect_calls (run sched_retry (run sched_fail (fresh 3))) = 2"
proof -
  let ?flight = "run sched_inflight (fresh 3)"
  let ?failed = "run sched_fail (fresh 3)"
  note one = ensureConnected_single_flight
    [where sched = sched_fail and n = 3 and arrivals = arrivals3 and later = later_ok,
     OF refl]
  note flight = ensureConnected_single_flight
    [where sched = sched_inflight and n = 3 and arrivals = arrivals3 and later = later_ok,
     OF refl]
  have sub: "{..<3} \<subseteq> set arrivals3"
    using arrivals3_all by auto
  from one arrivals3_all
  have once: "connect_calls (run (map Run arrivals3 @ later_ok) (fresh 3)) = 1"
    by simp
  have f1: "calls ?flight ! 2 = NotStarted"
    and f2: "connectPromise ?flight = Some 0"
    and f3: "promise_at ?flight 0 = Pending"
    and f4: "0 < length (promises ?flight)"
    and f5: "connect_calls ?flight = 1"
    by code_simp+
  from flight f1 f2 f3 f4
  have await: "run_call 2 ?flight = ?flight\<lparr>calls := (calls ?flight)[2 := AwaitExisting 0]\<rparr>"
    by simp
  have f6: "length (calls ?flight) = 3"
    by code_simp
  from await f5 f6
  have a1: "calls (run_call 2 ?flight) ! 2 = AwaitExisting 0"
    and a2: "connect_calls (run_call 2 ?flight) = 1"
    by simp_all
  from flight f3 f4
  have c1: "dbInstance (connect_settles 0 False ?flight) = None"
    and c2: "connectPromise (connect_settles 0 False ?flight) = None"
    by simp_all
  have state: "?failed = \<lparr>dbInstance = None, connectPromise = None, promises = [Rejected],
                            connect_calls = 1, calls = [Thrown, Thrown, NotStarted]\<rparr>"
    by code_simp
  have g1: "failed_attempts ?failed = 1"
    and g2: "\<not> connection_live ?failed"
    and g3: "calls ?failed ! 2 = NotStarted"
    and g4: "dbInstance ?failed = None"
    and g5: "connectPromise ?failed = None"
    and g6: "length (promises ?failed) = 1"
    and g7: "connect_calls ?failed = 1"
    by code_simp+
  from one g3 g4 g5
  have retry: "connect_calls (run_call 2 ?failed) = connect_calls ?failed + 1
     \<and> calls (run [Run 2, ConnectSettles (length (promises ?failed)) True, Run 2, Run 2,
                    QuerySettles 2 (Some (Some form_doc))] ?failed) ! 2
         = Returned (findOne_result (Some form_doc))
     \<and> connect_calls (run [Run 2, ConnectSettles (length (promises ?failed)) True, Run 2,
                            Run 2, QuerySettles 2 (Some (Some form_doc))] ?failed)
         = connect_calls ?failed + 1"
    by simp
  then have r1: "connect_calls (run_call 2 ?failed) = 2"
    and r2: "calls (run sched_retry ?failed) ! 2 = Returned (findOne_result (Some form_doc))"
    and r3: "connect_calls (run sched_retry ?failed) = 2"
    unfolding g6 g7 sched_retry_def by simp_all
  from sub once f1 f2 f3 a1 a2 c1 c2 state g1 g2 r1 r2 r3
  show ?thesis by simp
qed

end
